theory Spec2Isabelle
  imports Complex_Main
begin

section \<open>Result types (types.ts)\<close>

text \<open>
  A JavaScript property that may be missing (\<^verbatim>\<open>web?: ...\<close>, or a value the SDK hands over
  under an \<^verbatim>\<open>as any[]\<close> cast) is an \<open>option\<close>; \<open>None\<close> is \<^verbatim>\<open>undefined\<close>.
  The two provenances of a grounding chunk carry the same pair of fields.
\<close>

record SourceRef =
  uri :: "string option"
  title :: "string option"

record GroundingChunk =
  web :: "SourceRef option"
  maps_ref :: "SourceRef option"

record AnalysisResult =
  result_text :: string
  groundingChunks :: "GroundingChunk list option"

datatype ModuleType = DASHBOARD | QUANT_PREDICT | DEAL_FLOW | RESOURCE_MAP | DATA_LAB

datatype Level = INFO | WARN | CRIT

record LogEntry =
  entry_id :: string
  timestamp :: string
  level :: Level
  message :: string

section \<open>The inference service as the Gateway sees it\<close>

datatype Tool = googleSearch | googleMaps

record LatLng =
  latitude :: real
  longitude :: real

record InlineData =
  mimeType :: string
  inline_data :: "string option"

datatype Part = InlinePart InlineData | TextPart string

datatype Contents = Prompt string | Parts "Part list"

text \<open>
  The argument object of \<^verbatim>\<open>ai.models.generateContent\<close>. \<open>toolConfig = None\<close> is the
  \<^verbatim>\<open>undefined\<close> of the source; \<open>Some ll\<close> is
  \<^verbatim>\<open>{ retrievalConfig: { latLng: ll } }\<close>.
\<close>

record Request =
  model :: string
  contents :: Contents
  systemInstruction :: "string option"
  thinkingBudget :: "int option"
  tools :: "Tool list"
  toolConfig :: "LatLng option"

record GroundingMetadata =
  gm_groundingChunks :: "GroundingChunk list option"

record Candidate =
  groundingMetadata :: "GroundingMetadata option"

record Response =
  response_text :: "string option"
  candidates :: "Candidate list option"

text \<open>Whatever \<^verbatim>\<open>generateContent\<close> throws (a rejected promise).\<close>

datatype fault = Fault string

type_synonym Service = "Request \<Rightarrow> fault + Response"

text \<open>\<^verbatim>\<open>a || b\<close> on a possibly missing string: the empty string is falsy as well.\<close>

fun or_str :: "string option \<Rightarrow> string \<Rightarrow> string" where
  "or_str None d = d"
| "or_str (Some s) d = (if s = [] then d else s)"

text \<open>
  \<^verbatim>\<open>try { ... } catch (error) { ... }\<close>: the body is a computation that either throws or
  yields a value; the handler sees the thrown value.
\<close>

fun try_catch :: "fault + 'a \<Rightarrow> (fault \<Rightarrow> fault + 'a) \<Rightarrow> fault + 'a" where
  "try_catch (Inl e) handler = handler e"
| "try_catch (Inr v) handler = Inr v"

text \<open>\<^verbatim>\<open>response.candidates?.[0]?.groundingMetadata?.groundingChunks\<close>\<close>

fun response_groundingChunks :: "Response \<Rightarrow> GroundingChunk list option" where
  "response_groundingChunks response =
     (case candidates response of
        None \<Rightarrow> None
      | Some [] \<Rightarrow> None
      | Some (c # _) \<Rightarrow>
          (case groundingMetadata c of
             None \<Rightarrow> None
           | Some m \<Rightarrow> gm_groundingChunks m))"

section \<open>The Gateway (services/geminiService)\<close>

text \<open>
  Every operation starts with \<^verbatim>\<open>const ai = getClient()\<close>, which runs
  \<^verbatim>\<open>new GoogleGenAI({ apiKey: process.env.API_KEY })\<close> before the \<^verbatim>\<open>try\<close> block is
  entered. The constructor belongs to the SDK; its outcome is the parameter
  \<open>getClient\<close> of each operation: \<open>Inl\<close> what the constructor threw, \<open>Inr\<close> the
  \<^verbatim>\<open>generateContent\<close> of the client it built. The result of an operation is the
  settlement of the promise it returns: \<open>Inl\<close> a rejection, \<open>Inr\<close> the value it resolves
  to. What is thrown outside the \<^verbatim>\<open>try\<close> block rejects the promise. The
  \<^verbatim>\<open>console.error\<close> of each handler writes to the diagnostic console only and is left out.
\<close>

type_synonym Client = "fault + Service"

definition getMarketUpdates_request :: Request where
  "getMarketUpdates_request =
     \<lparr> model = ''gemini-flash-lite-latest'',
       contents = Prompt ''Generate 3 concise, high-impact financial news headlines for a professional trading terminal. No emojis. Format as bullet points.'',
       systemInstruction = None,
       thinkingBudget = None,
       tools = [],
       toolConfig = None \<rparr>"

definition getMarketUpdates :: "Client \<Rightarrow> fault + string" where
  "getMarketUpdates getClient =
     (case getClient of
        Inl thrown \<Rightarrow> Inl thrown
      | Inr ai \<Rightarrow>
          try_catch
            (case ai getMarketUpdates_request of
               Inl e \<Rightarrow> Inl e
             | Inr response \<Rightarrow> Inr (or_str (response_text response) ''Market data unavailable.''))
            (\<lambda>error. Inr ''SYSTEM ERROR: UNABLE TO FETCH MARKET DATA''))"

definition generateQuantPrediction_request :: "string \<Rightarrow> Request" where
  "generateQuantPrediction_request query =
     \<lparr> model = ''gemini-3-pro-preview'',
       contents = Prompt query,
       systemInstruction = Some ''You are a senior quantitative analyst for a top-tier hedge fund. Provide deep, data-driven analysis. Use professional financial terminology. No emojis. Focus on risk, alpha generation, and macro factors.'',
       thinkingBudget = Some 32768,
       tools = [],
       toolConfig = None \<rparr>"

definition generateQuantPrediction :: "Client \<Rightarrow> string \<Rightarrow> fault + string" where
  "generateQuantPrediction getClient query =
     (case getClient of
        Inl thrown \<Rightarrow> Inl thrown
      | Inr ai \<Rightarrow>
          try_catch
            (case ai (generateQuantPrediction_request query) of
               Inl e \<Rightarrow> Inl e
             | Inr response \<Rightarrow> Inr (or_str (response_text response) ''Analysis failed.''))
            (\<lambda>error. Inr ''SYSTEM ERROR: QUANT MODEL CONNECTION FAILED''))"

definition findPrivateEquityDeals_request :: "string \<Rightarrow> Request" where
  "findPrivateEquityDeals_request sector =
     \<lparr> model = ''gemini-3-flash-preview'',
       contents = Prompt (''Find emerging private companies in the '' @ sector @
         '' sector suitable for acquisition or venture capital investment. Focus on companies with recent growth news or funding rounds. List them with brief rationales.''),
       systemInstruction = None,
       thinkingBudget = None,
       tools = [googleSearch],
       toolConfig = None \<rparr>"

definition findPrivateEquityDeals :: "Client \<Rightarrow> string \<Rightarrow> fault + AnalysisResult" where
  "findPrivateEquityDeals getClient sector =
     (case getClient of
        Inl thrown \<Rightarrow> Inl thrown
      | Inr ai \<Rightarrow>
          try_catch
            (case ai (findPrivateEquityDeals_request sector) of
               Inl e \<Rightarrow> Inl e
             | Inr response \<Rightarrow>
                 Inr \<lparr> result_text = or_str (response_text response) ''No deals found.'',
                       groundingChunks = response_groundingChunks response \<rparr>)
            (\<lambda>error. Inr \<lparr> result_text = ''SYSTEM ERROR: SEARCH TOOL MALFUNCTION'',
                            groundingChunks = None \<rparr>))"

text \<open>
  \<^verbatim>\<open>lat && lng ? {...} : undefined\<close>: a number is truthy unless it is zero (or NaN, which
  is no coordinate and which \<open>real\<close> does not have); a missing argument is falsy.
\<close>

fun truthy_num :: "real option \<Rightarrow> bool" where
  "truthy_num None = False"
| "truthy_num (Some x) = (x \<noteq> 0)"

definition findResources_request :: "string \<Rightarrow> real option \<Rightarrow> real option \<Rightarrow> Request" where
  "findResources_request resourceType lat lng =
     \<lparr> model = ''gemini-2.5-flash'',
       contents = Prompt (''Locate major '' @ resourceType @
         '' mines, rigs, or reserves. Provide key details for each location.''),
       systemInstruction = None,
       thinkingBudget = None,
       tools = [googleMaps],
       toolConfig =
         (if truthy_num lat \<and> truthy_num lng
          then Some \<lparr> latitude = the lat, longitude = the lng \<rparr>
          else None) \<rparr>"

definition findResources ::
  "Client \<Rightarrow> string \<Rightarrow> real option \<Rightarrow> real option \<Rightarrow> fault + AnalysisResult" where
  "findResources getClient resourceType lat lng =
     (case getClient of
        Inl thrown \<Rightarrow> Inl thrown
      | Inr ai \<Rightarrow>
          try_catch
            (case ai (findResources_request resourceType lat lng) of
               Inl e \<Rightarrow> Inl e
             | Inr response \<Rightarrow>
                 Inr \<lparr> result_text = or_str (response_text response) ''No locations found.'',
                       groundingChunks = response_groundingChunks response \<rparr>)
            (\<lambda>error. Inr \<lparr> result_text = ''SYSTEM ERROR: GEOSPATIAL MODULE FAILURE'',
                            groundingChunks = None \<rparr>))"

definition analyzeChartImage_request :: "string option \<Rightarrow> string \<Rightarrow> Request" where
  "analyzeChartImage_request base64Image prompt =
     \<lparr> model = ''gemini-3-pro-preview'',
       contents = Parts [InlinePart \<lparr> mimeType = ''image/png'', inline_data = base64Image \<rparr>,
                         TextPart prompt],
       systemInstruction = Some ''Analyze the provided financial chart or data. Look for technical patterns (Head and Shoulders, Double Top, etc.) and trend lines. Provide a professional assessment.'',
       thinkingBudget = None,
       tools = [],
       toolConfig = None \<rparr>"

definition analyzeChartImage :: "Client \<Rightarrow> string option \<Rightarrow> string \<Rightarrow> fault + string" where
  "analyzeChartImage getClient base64Image prompt =
     (case getClient of
        Inl thrown \<Rightarrow> Inl thrown
      | Inr ai \<Rightarrow>
          try_catch
            (case ai (analyzeChartImage_request base64Image prompt) of
               Inl e \<Rightarrow> Inl e
             | Inr response \<Rightarrow> Inr (or_str (response_text response) ''Analysis failed.''))
            (\<lambda>error. Inr ''SYSTEM ERROR: VISION MODEL FAILURE''))"

section \<open>Rendering of source references (components/TerminalOutput)\<close>

text \<open>\<^verbatim>\<open>a || b\<close> where both sides may be missing.\<close>

fun or_opt :: "string option \<Rightarrow> string option \<Rightarrow> string option" where
  "or_opt None b = b"
| "or_opt (Some s) b = (if s = [] then b else Some s)"

text \<open>\<^verbatim>\<open>chunk.web?.uri\<close>: the field of a reference that may itself be missing.\<close>

fun opt_field :: "(SourceRef \<Rightarrow> string option) \<Rightarrow> SourceRef option \<Rightarrow> string option" where
  "opt_field f None = None"
| "opt_field f (Some r) = f r"

text \<open>
  One \<^verbatim>\<open><li key={i}><a href={uri}>[{i + 1}] {title}</a></li>\<close> of the list.
\<close>

record SourceItem =
  item_key :: nat
  href :: string
  item_number :: nat
  item_title :: string

text \<open>The callback of \<^verbatim>\<open>groundingChunks.map\<close>; \<open>None\<close> is its \<^verbatim>\<open>return null\<close>.\<close>

definition chunk_item :: "nat \<Rightarrow> GroundingChunk \<Rightarrow> SourceItem option" where
  "chunk_item i chunk =
     (let uri' = or_opt (opt_field uri (web chunk)) (opt_field uri (maps_ref chunk));
          title' = or_str (or_opt (opt_field title (web chunk)) (opt_field title (maps_ref chunk)))
                     ''Unknown Source''
      in case uri' of
           None \<Rightarrow> None
         | Some u \<Rightarrow>
             if u = [] then None
             else Some \<lparr> item_key = i, href = u, item_number = i + 1, item_title = title' \<rparr>)"

fun chunk_items :: "nat \<Rightarrow> GroundingChunk list \<Rightarrow> SourceItem option list" where
  "chunk_items i [] = []"
| "chunk_items i (chunk # chunks) = chunk_item i chunk # chunk_items (Suc i) chunks"

text \<open>React renders a \<^verbatim>\<open>null\<close> child as nothing.\<close>

fun visible :: "'a option list \<Rightarrow> 'a list" where
  "visible [] = []"
| "visible (None # xs) = visible xs"
| "visible (Some x # xs) = x # visible xs"


section \<open>The view-state controller (App.tsx)\<close>

text \<open>
  What a call of \<^verbatim>\<open>addLog\<close> reads from its environment:
  \<^verbatim>\<open>Math.random().toString(36).substr(2, 9)\<close> and \<^verbatim>\<open>new Date().toLocaleTimeString()\<close>.
\<close>

record Stamp =
  rnd_id :: string
  now :: string

record AppState =
  activeModule :: ModuleType
  systemLogs :: "LogEntry list"
  quantQuery :: string
  quantResult :: string
  quantLoading :: bool
  dealSector :: string
  dealResult :: "AnalysisResult option"
  dealLoading :: bool
  resourceType :: string
  resourceResult :: "AnalysisResult option"
  resourceLoading :: bool
  headlines :: string
  analysisPrompt :: string
  analysisImage :: "string option"
  analysisResult :: string
  analysisLoading :: bool

definition initial_state :: AppState where
  "initial_state =
     \<lparr> activeModule = DASHBOARD,
       systemLogs = [],
       quantQuery = [],
       quantResult = [],
       quantLoading = False,
       dealSector = [],
       dealResult = None,
       dealLoading = False,
       resourceType = [],
       resourceResult = None,
       resourceLoading = False,
       headlines = ''Initializing live feed...'',
       analysisPrompt = [],
       analysisImage = None,
       analysisResult = [],
       analysisLoading = False \<rparr>"

text \<open>
  \<^verbatim>\<open>setSystemLogs(prev => [entry, ...prev.slice(0, 49)])\<close>: a functional update, so it
  acts on the buffer as it is when the update is applied.
\<close>

definition addLog :: "Stamp \<Rightarrow> string \<Rightarrow> Level \<Rightarrow> AppState \<Rightarrow> AppState" where
  "addLog st msg lvl s =
     s\<lparr> systemLogs :=
          \<lparr> entry_id = rnd_id st, timestamp = now st, level = lvl, message = msg \<rparr>
          # take 49 (systemLogs s) \<rparr>"

text \<open>A Gateway operation that has been invoked, with its arguments.\<close>

datatype GatewayCall =
    CallMarketUpdates
  | CallQuantPrediction string
  | CallPrivateEquityDeals string
  | CallResources string "real option" "real option"
  | CallChartImage "string option" string

fun call_request :: "GatewayCall \<Rightarrow> Request" where
  "call_request CallMarketUpdates = getMarketUpdates_request"
| "call_request (CallQuantPrediction query) = generateQuantPrediction_request query"
| "call_request (CallPrivateEquityDeals sector) = findPrivateEquityDeals_request sector"
| "call_request (CallResources rtype lat lng) = findResources_request rtype lat lng"
| "call_request (CallChartImage base64Image prompt) = analyzeChartImage_request base64Image prompt"

text \<open>
  An \<^verbatim>\<open>async\<close> handler runs up to its \<^verbatim>\<open>await\<close> when the event arrives and the rest when
  the awaited promise resolves. The first half returns the new state and the Gateway
  call it has made, if any (\<open>None\<close> after the early \<^verbatim>\<open>return\<close>); the second half
  (\<open>_resume\<close>) takes the value the Gateway resolved to. \<^verbatim>\<open>e.preventDefault()\<close> touches the
  event only.
\<close>

definition handleQuantSubmit :: "Stamp \<Rightarrow> AppState \<Rightarrow> AppState \<times> GatewayCall option" where
  "handleQuantSubmit st s =
     (if quantQuery s = [] then (s, None)
      else (addLog st (''Running Quant Model (Gemini 3 Pro - Thinking Mode) for: '' @ quantQuery s) INFO
              (s\<lparr> quantLoading := True \<rparr>),
            Some (CallQuantPrediction (quantQuery s))))"

definition handleQuantSubmit_resume :: "Stamp \<Rightarrow> string \<Rightarrow> AppState \<Rightarrow> AppState" where
  "handleQuantSubmit_resume st res s =
     addLog st ''Quant Analysis Complete'' INFO (s\<lparr> quantResult := res, quantLoading := False \<rparr>)"

definition handleDealSubmit :: "Stamp \<Rightarrow> AppState \<Rightarrow> AppState \<times> GatewayCall option" where
  "handleDealSubmit st s =
     (if dealSector s = [] then (s, None)
      else (addLog st (''Scanning Deal Flow (Gemini 3 Flash + Search) for: '' @ dealSector s) INFO
              (s\<lparr> dealLoading := True \<rparr>),
            Some (CallPrivateEquityDeals (dealSector s))))"

definition handleDealSubmit_resume :: "Stamp \<Rightarrow> AnalysisResult \<Rightarrow> AppState \<Rightarrow> AppState" where
  "handleDealSubmit_resume st res s =
     addLog st ''Deal Scan Complete'' INFO (s\<lparr> dealResult := Some res, dealLoading := False \<rparr>)"

definition handleResourceSubmit :: "Stamp \<Rightarrow> AppState \<Rightarrow> AppState \<times> GatewayCall option" where
  "handleResourceSubmit st s =
     (if resourceType s = [] then (s, None)
      else (addLog st (''Locating Resources (Gemini 2.5 Flash + Maps) for: '' @ resourceType s) INFO
              (s\<lparr> resourceLoading := True \<rparr>),
            Some (CallResources (resourceType s) None None)))"

definition handleResourceSubmit_resume :: "Stamp \<Rightarrow> AnalysisResult \<Rightarrow> AppState \<Rightarrow> AppState" where
  "handleResourceSubmit_resume st res s =
     addLog st ''Geospatial Data Retrieved'' INFO
       (s\<lparr> resourceResult := Some res, resourceLoading := False \<rparr>)"

text \<open>
  \<^verbatim>\<open>reader.onloadend\<close> of \<^verbatim>\<open>handleFileUpload\<close>: \<^verbatim>\<open>reader.result\<close> is the data URL of the
  file, or \<^verbatim>\<open>null\<close> when reading failed.
\<close>

definition handleFileUpload_loaded :: "Stamp \<Rightarrow> string \<Rightarrow> string option \<Rightarrow> AppState \<Rightarrow> AppState" where
  "handleFileUpload_loaded st name result s =
     addLog st (''Image Loaded: '' @ name) INFO (s\<lparr> analysisImage := result \<rparr>)"

text \<open>\<^verbatim>\<open>str.split(c)\<close> for a one-character separator, and \<^verbatim>\<open>arr[i]\<close>.\<close>

fun split_on :: "char \<Rightarrow> string \<Rightarrow> string list" where
  "split_on c [] = [[]]"
| "split_on c (x # xs) =
     (if x = c then [] # split_on c xs
      else case split_on c xs of
             [] \<Rightarrow> [[x]]
           | p # ps \<Rightarrow> (x # p) # ps)"

definition index :: "'a list \<Rightarrow> nat \<Rightarrow> 'a option" where
  "index xs i = (if i < length xs then Some (xs ! i) else None)"

definition handleAnalysisSubmit :: "Stamp \<Rightarrow> AppState \<Rightarrow> AppState \<times> GatewayCall option" where
  "handleAnalysisSubmit st s =
     (case analysisImage s of
        None \<Rightarrow> (s, None)
      | Some img \<Rightarrow>
          if img = [] then (s, None)
          else (addLog st ''Analyzing Visual Data (Gemini 3 Pro Vision)...'' INFO
                  (s\<lparr> analysisLoading := True \<rparr>),
                Some (CallChartImage (index (split_on CHR '','' img) 1)
                        (or_str (Some (analysisPrompt s)) ''Analyze this financial chart.''))))"

definition handleAnalysisSubmit_resume :: "Stamp \<Rightarrow> string \<Rightarrow> AppState \<Rightarrow> AppState" where
  "handleAnalysisSubmit_resume st res s =
     addLog st ''Visual Analysis Complete'' INFO
       (s\<lparr> analysisResult := res, analysisLoading := False \<rparr>)"

text \<open>The \<^verbatim>\<open>.then\<close> callback of the mount effect.\<close>

definition marketUpdates_resume :: "Stamp \<Rightarrow> string \<Rightarrow> AppState \<Rightarrow> AppState" where
  "marketUpdates_resume st news s =
     addLog st ''Market Data Stream Active'' INFO (s\<lparr> headlines := news \<rparr>)"

text \<open>
  The interval callback, with the two values of \<^verbatim>\<open>Math.random()\<close> it draws (both in
  \<open>[0, 1)\<close>, so the index is below 4).
\<close>

definition tick_msgs :: "string list" where
  "tick_msgs = [''Latency check: 12ms'', ''Encryption key rotation'', ''Data packet received'',
                ''Index sync complete'']"

definition tick :: "real \<Rightarrow> real \<Rightarrow> Stamp \<Rightarrow> AppState \<Rightarrow> AppState" where
  "tick r1 r2 st s =
     (if r1 > 7 / 10 then addLog st (tick_msgs ! nat \<lfloor>r2 * 4\<rfloor>) INFO s else s)"

section \<open>The controller as an event system\<close>

text \<open>
  The state of the running application: the React state and the Gateway calls whose
  promises have not settled yet, oldest first.
\<close>

record System =
  app :: AppState
  inflight :: "GatewayCall list"

text \<open>The mount effect: two log lines and the one call of \<^verbatim>\<open>getMarketUpdates\<close>.\<close>

definition mounted :: "Stamp \<Rightarrow> Stamp \<Rightarrow> System" where
  "mounted st1 st2 =
     \<lparr> app = addLog st2 ''Connecting to Gemini 2.5 Flash Lite for Market Data...'' INFO
               (addLog st1 ''System Initialized'' INFO initial_state),
       inflight = [CallMarketUpdates] \<rparr>"

text \<open>A service that answers every request with the outcome \<open>out\<close>.\<close>

definition answering :: "fault + Response \<Rightarrow> Service" where
  "answering out req = out"

text \<open>
  The settlement of a call. \<open>client\<close> is what \<^verbatim>\<open>getClient()\<close> yielded inside the
  operation (nothing observes it before the promise settles). The operation turns it
  into the settlement of its promise, and the awaiting handler goes on with the value.
  When the promise is rejected, the \<^verbatim>\<open>await\<close> throws inside the handler, which has no
  \<^verbatim>\<open>try\<close> of its own: the rest of the handler does not run.
\<close>

fun resume :: "Stamp \<Rightarrow> Client \<Rightarrow> GatewayCall \<Rightarrow> AppState \<Rightarrow> AppState" where
  "resume st client CallMarketUpdates s =
     (case getMarketUpdates client of
        Inl e \<Rightarrow> s
      | Inr news \<Rightarrow> marketUpdates_resume st news s)"
| "resume st client (CallQuantPrediction query) s =
     (case generateQuantPrediction client query of
        Inl e \<Rightarrow> s
      | Inr res \<Rightarrow> handleQuantSubmit_resume st res s)"
| "resume st client (CallPrivateEquityDeals sector) s =
     (case findPrivateEquityDeals client sector of
        Inl e \<Rightarrow> s
      | Inr res \<Rightarrow> handleDealSubmit_resume st res s)"
| "resume st client (CallResources rtype lat lng) s =
     (case findResources client rtype lat lng of
        Inl e \<Rightarrow> s
      | Inr res \<Rightarrow> handleResourceSubmit_resume st res s)"
| "resume st client (CallChartImage base64Image prompt) s =
     (case analyzeChartImage client base64Image prompt of
        Inl e \<Rightarrow> s
      | Inr res \<Rightarrow> handleAnalysisSubmit_resume st res s)"

datatype Event =
    SetActiveModule ModuleType
  | SetQuantQuery string
  | SetDealSector string
  | SetResourceType string
  | SetAnalysisPrompt string
  | FileLoaded Stamp string "string option"
  | SubmitQuant Stamp
  | SubmitDeal Stamp
  | SubmitResource Stamp
  | ClickAnalysis Stamp
  | Settle nat Client Stamp
  | Tick real real Stamp

definition issue :: "AppState \<times> GatewayCall option \<Rightarrow> System \<Rightarrow> System" where
  "issue r \<sigma> =
     \<lparr> app = fst r,
       inflight = inflight \<sigma> @ (case snd r of None \<Rightarrow> [] | Some c \<Rightarrow> [c]) \<rparr>"

text \<open>
  One event of the user interface or of the runtime. A submit control that is rendered
  \<^verbatim>\<open>disabled\<close> delivers no event: \<^verbatim>\<open>disabled={quantLoading}\<close>, \<^verbatim>\<open>disabled={dealLoading}\<close>,
  \<^verbatim>\<open>disabled={resourceLoading}\<close>, \<^verbatim>\<open>disabled={analysisLoading || !analysisImage}\<close>.
  That a control exists only while its view is the active module is left out, which
  only adds behaviours. \<open>Settle i\<close> is the settlement of the \<open>i\<close>-th pending call.
\<close>

fun fire :: "Event \<Rightarrow> System \<Rightarrow> System" where
  "fire (SetActiveModule m) \<sigma> = \<sigma>\<lparr> app := (app \<sigma>)\<lparr> activeModule := m \<rparr> \<rparr>"
| "fire (SetQuantQuery v) \<sigma> = \<sigma>\<lparr> app := (app \<sigma>)\<lparr> quantQuery := v \<rparr> \<rparr>"
| "fire (SetDealSector v) \<sigma> = \<sigma>\<lparr> app := (app \<sigma>)\<lparr> dealSector := v \<rparr> \<rparr>"
| "fire (SetResourceType v) \<sigma> = \<sigma>\<lparr> app := (app \<sigma>)\<lparr> resourceType := v \<rparr> \<rparr>"
| "fire (SetAnalysisPrompt v) \<sigma> = \<sigma>\<lparr> app := (app \<sigma>)\<lparr> analysisPrompt := v \<rparr> \<rparr>"
| "fire (FileLoaded st name result) \<sigma> =
     \<sigma>\<lparr> app := handleFileUpload_loaded st name result (app \<sigma>) \<rparr>"
| "fire (SubmitQuant st) \<sigma> =
     (if quantLoading (app \<sigma>) then \<sigma> else issue (handleQuantSubmit st (app \<sigma>)) \<sigma>)"
| "fire (SubmitDeal st) \<sigma> =
     (if dealLoading (app \<sigma>) then \<sigma> else issue (handleDealSubmit st (app \<sigma>)) \<sigma>)"
| "fire (SubmitResource st) \<sigma> =
     (if resourceLoading (app \<sigma>) then \<sigma> else issue (handleResourceSubmit st (app \<sigma>)) \<sigma>)"
| "fire (ClickAnalysis st) \<sigma> =
     (if analysisLoading (app \<sigma>) \<or> analysisImage (app \<sigma>) = None \<or> analysisImage (app \<sigma>) = Some []
      then \<sigma>
      else issue (handleAnalysisSubmit st (app \<sigma>)) \<sigma>)"
| "fire (Settle i client st) \<sigma> =
     (if i < length (inflight \<sigma>)
      then \<lparr> app = resume st client (inflight \<sigma> ! i) (app \<sigma>),
             inflight = take i (inflight \<sigma>) @ drop (Suc i) (inflight \<sigma>) \<rparr>
      else \<sigma>)"
| "fire (Tick r1 r2 st) \<sigma> = \<sigma>\<lparr> app := tick r1 r2 st (app \<sigma>) \<rparr>"

fun run :: "Event list \<Rightarrow> System \<Rightarrow> System" where
  "run [] \<sigma> = \<sigma>"
| "run (e # es) \<sigma> = run es (fire e \<sigma>)"

inductive reachable :: "System \<Rightarrow> bool" where
  reachable_mounted: "reachable (mounted st1 st2)"
| reachable_fire: "reachable \<sigma> \<Longrightarrow> reachable (fire e \<sigma>)"

subsection \<open>Tasks and their request states\<close>

datatype Task = MarketDigest | QuantPrediction | DealSourcing | ResourceMapping | ImageAnalysis

datatype TaskInput = NoInput | TextInput string | ImageInput "string option" string

datatype TaskResult = TextResult string | GroundedResult "AnalysisResult option"

text \<open>
  The state variables of each task, read as (input, result, loading flag). The market
  digest has no input and no flag of its own.
\<close>

fun requestState :: "Task \<Rightarrow> AppState \<Rightarrow> TaskInput \<times> TaskResult \<times> bool" where
  "requestState MarketDigest s = (NoInput, TextResult (headlines s), False)"
| "requestState QuantPrediction s =
     (TextInput (quantQuery s), TextResult (quantResult s), quantLoading s)"
| "requestState DealSourcing s =
     (TextInput (dealSector s), GroundedResult (dealResult s), dealLoading s)"
| "requestState ResourceMapping s =
     (TextInput (resourceType s), GroundedResult (resourceResult s), resourceLoading s)"
| "requestState ImageAnalysis s =
     (ImageInput (analysisImage s) (analysisPrompt s), TextResult (analysisResult s),
      analysisLoading s)"

definition isLoading :: "Task \<Rightarrow> AppState \<Rightarrow> bool" where
  "isLoading t s = snd (snd (requestState t s))"

fun call_task :: "GatewayCall \<Rightarrow> Task" where
  "call_task CallMarketUpdates = MarketDigest"
| "call_task (CallQuantPrediction query) = QuantPrediction"
| "call_task (CallPrivateEquityDeals sector) = DealSourcing"
| "call_task (CallResources rtype lat lng) = ResourceMapping"
| "call_task (CallChartImage base64Image prompt) = ImageAnalysis"

text \<open>The pending calls of a task.\<close>

definition pending :: "Task \<Rightarrow> System \<Rightarrow> GatewayCall list" where
  "pending t \<sigma> = filter (\<lambda>c. call_task c = t) (inflight \<sigma>)"

text \<open>The submit events of a task, and the task an event belongs to.\<close>

fun submit :: "Task \<Rightarrow> Stamp \<Rightarrow> Event option" where
  "submit MarketDigest st = None"
| "submit QuantPrediction st = Some (SubmitQuant st)"
| "submit DealSourcing st = Some (SubmitDeal st)"
| "submit ResourceMapping st = Some (SubmitResource st)"
| "submit ImageAnalysis st = Some (ClickAnalysis st)"

fun event_task :: "Event \<Rightarrow> System \<Rightarrow> Task option" where
  "event_task (SetActiveModule m) \<sigma> = None"
| "event_task (SetQuantQuery v) \<sigma> = Some QuantPrediction"
| "event_task (SetDealSector v) \<sigma> = Some DealSourcing"
| "event_task (SetResourceType v) \<sigma> = Some ResourceMapping"
| "event_task (SetAnalysisPrompt v) \<sigma> = Some ImageAnalysis"
| "event_task (FileLoaded st name result) \<sigma> = Some ImageAnalysis"
| "event_task (SubmitQuant st) \<sigma> = Some QuantPrediction"
| "event_task (SubmitDeal st) \<sigma> = Some DealSourcing"
| "event_task (SubmitResource st) \<sigma> = Some ResourceMapping"
| "event_task (ClickAnalysis st) \<sigma> = Some ImageAnalysis"
| "event_task (Settle i client st) \<sigma> =
     (if i < length (inflight \<sigma>) then Some (call_task (inflight \<sigma> ! i)) else None)"
| "event_task (Tick r1 r2 st) \<sigma> = None"

subsection \<open>Views of requests and results used in the statements\<close>


text \<open>The media types a request declares for its inline parts.\<close>

fun part_mimeTypes :: "Part list \<Rightarrow> string list" where
  "part_mimeTypes [] = []"
| "part_mimeTypes (InlinePart d # ps) = mimeType d # part_mimeTypes ps"
| "part_mimeTypes (TextPart t # ps) = part_mimeTypes ps"

fun declared_mimeTypes :: "Request \<Rightarrow> string list" where
  "declared_mimeTypes req = (case contents req of Prompt t \<Rightarrow> [] | Parts ps \<Rightarrow> part_mimeTypes ps)"

subsection \<open>Predicates used in the statements and their proofs\<close>

text \<open>
  The flag of a task covers its pending calls: at most one call is pending, and none
  while the flag is clear.
\<close>

definition covered :: "Task \<Rightarrow> System \<Rightarrow> bool" where
  "covered t \<sigma> = (length (pending t \<sigma>) \<le> (if isLoading t (app \<sigma>) then 1 else 0))"

text \<open>The flag of a task is set exactly while the task has its one call pending.\<close>

definition tracked :: "Task \<Rightarrow> System \<Rightarrow> bool" where
  "tracked t \<sigma> = (length (pending t \<sigma>) = (if isLoading t (app \<sigma>) then 1 else 0))"

text \<open>An event other than the settlement of a call whose client could not be built.\<close>

fun resolving :: "Event \<Rightarrow> bool" where
  "resolving (Settle i (Inl thrown) st) = False"
| "resolving e = True"

text \<open>A call that carries no coordinates.\<close>

fun unlocated :: "GatewayCall \<Rightarrow> bool" where
  "unlocated (CallResources rtype lat lng) = (lat = None \<and> lng = None)"
| "unlocated c = True"

text \<open>
  The input a handler accepts: its test is \<^verbatim>\<open>!quantQuery\<close>, \<^verbatim>\<open>!dealSector\<close>,
  \<^verbatim>\<open>!resourceType\<close>, \<^verbatim>\<open>!analysisImage\<close>; the prompt of the image analysis is optional.
\<close>

fun validInput :: "TaskInput \<Rightarrow> bool" where
  "validInput NoInput = False"
| "validInput (TextInput v) = (v \<noteq> [])"
| "validInput (ImageInput img prompt) = (img \<noteq> None \<and> img \<noteq> Some [])"

text \<open>
  The events of the input controls of a task (the \<^verbatim>\<open>onChange\<close> callbacks and
  \<^verbatim>\<open>reader.onloadend\<close>), and the events that run one of the two halves of its handler
  (the submit, and the settlement of a call of the task).
\<close>

fun input_event :: "Event \<Rightarrow> Task option" where
  "input_event (SetQuantQuery v) = Some QuantPrediction"
| "input_event (SetDealSector v) = Some DealSourcing"
| "input_event (SetResourceType v) = Some ResourceMapping"
| "input_event (SetAnalysisPrompt v) = Some ImageAnalysis"
| "input_event (FileLoaded st name result) = Some ImageAnalysis"
| "input_event e = None"

fun handler_event :: "Event \<Rightarrow> System \<Rightarrow> Task option" where
  "handler_event (SubmitQuant st) \<sigma> = Some QuantPrediction"
| "handler_event (SubmitDeal st) \<sigma> = Some DealSourcing"
| "handler_event (SubmitResource st) \<sigma> = Some ResourceMapping"
| "handler_event (ClickAnalysis st) \<sigma> = Some ImageAnalysis"
| "handler_event (Settle i client st) \<sigma> =
     (if i < length (inflight \<sigma>) then Some (call_task (inflight \<sigma> ! i)) else None)"
| "handler_event e \<sigma> = None"

text \<open>A sequence of calls of \<open>addLog\<close>, and the entry a call creates.\<close>

fun addLogs :: "(Stamp \<times> string \<times> Level) list \<Rightarrow> AppState \<Rightarrow> AppState" where
  "addLogs [] s = s"
| "addLogs ((st, msg, lvl) # calls) s = addLogs calls (addLog st msg lvl s)"

fun logged :: "Stamp \<times> string \<times> Level \<Rightarrow> LogEntry" where
  "logged (st, msg, lvl) =
     \<lparr> entry_id = rnd_id st, timestamp = now st, level = lvl, message = msg \<rparr>"

section \<open>Sample inputs\<close>

definition stamp0 :: Stamp where
  "stamp0 = \<lparr> rnd_id = ''k3j9x0a1b'', now = ''10:00:00 AM'' \<rparr>"

definition failing_service :: Service where
  "failing_service req = Inl (Fault ''network down'')"






definition sample_log :: "nat \<Rightarrow> Stamp \<times> string \<times> Level" where
  "sample_log n = (stamp0, replicate n CHR ''.'', INFO)"

definition full_log_state :: AppState where
  "full_log_state = addLogs (map sample_log [0..<50]) initial_state"

definition jpeg_state :: AppState where
  "jpeg_state = initial_state\<lparr> analysisImage := Some ''data:image/jpeg;base64,/9j/4AAQSkZJRg=='' \<rparr>"

definition ready_system :: System where
  "ready_system = fire (SetQuantQuery ''rate cut impact on small caps'') (mounted stamp0 stamp0)"

definition loading_system :: System where
  "loading_system = fire (SubmitQuant stamp0) ready_system"

definition whitespace_state :: AppState where
  "whitespace_state = initial_state\<lparr> quantQuery := '' '' \<rparr>"

definition quant_response :: Response where
  "quant_response = \<lparr> response_text = Some ''Small caps outperform.'', candidates = None \<rparr>"

definition lithium_system :: System where
  "lithium_system =
     fire (SubmitResource stamp0) (fire (SetResourceType ''lithium'') (mounted stamp0 stamp0))"

definition no_client :: Client where
  "no_client = Inl (Fault ''An API Key must be set when running in a browser'')"

definition mime_echo_service :: Service where
  "mime_echo_service req =
     Inr \<lparr> response_text = Some (concat (declared_mimeTypes req)), candidates = None \<rparr>"

definition png_only_service :: Service where
  "png_only_service req =
     (if declared_mimeTypes req = [''image/png''] then mime_echo_service req
      else Inl (Fault ''unsupported media type''))"

section \<open>The Gateway and the failures it contains\<close>

lemma try_catch_total: "(\<And>e. \<exists>v. h e = Inr v) \<Longrightarrow> \<exists>v. try_catch b h = Inr v"
  by (cases b) auto

lemma getMarketUpdates_resolves: "\<exists>v. getMarketUpdates (Inr ai) = Inr v"
  by (simp add: getMarketUpdates_def try_catch_total)

lemma generateQuantPrediction_resolves: "\<exists>v. generateQuantPrediction (Inr ai) q = Inr v"
  by (simp add: generateQuantPrediction_def try_catch_total)

lemma findPrivateEquityDeals_resolves: "\<exists>v. findPrivateEquityDeals (Inr ai) sector = Inr v"
  by (simp add: findPrivateEquityDeals_def try_catch_total)

lemma findResources_resolves: "\<exists>v. findResources (Inr ai) rtype lat lng = Inr v"
  by (simp add: findResources_def try_catch_total)

lemma analyzeChartImage_resolves: "\<exists>v. analyzeChartImage (Inr ai) b p = Inr v"
  by (simp add: analyzeChartImage_def try_catch_total)

lemma gateway_rejects:
  "getMarketUpdates (Inl thrown) = Inl thrown"
  "generateQuantPrediction (Inl thrown) q = Inl thrown"
  "findPrivateEquityDeals (Inl thrown) sector = Inl thrown"
  "findResources (Inl thrown) rtype lat lng = Inl thrown"
  "analyzeChartImage (Inl thrown) b p = Inl thrown"
  by (simp_all add: getMarketUpdates_def generateQuantPrediction_def findPrivateEquityDeals_def
      findResources_def analyzeChartImage_def)

text \<open>
  C1, as stated, fails: what \<^verbatim>\<open>getClient()\<close> throws is thrown before the \<^verbatim>\<open>try\<close> block,
  and each of the five operations rejects with it.
\<close>

theorem client_failure_propagates:
  "getMarketUpdates no_client =
     Inl (Fault ''An API Key must be set when running in a browser'')
   \<and> generateQuantPrediction no_client ''rate cut impact on small caps'' =
       Inl (Fault ''An API Key must be set when running in a browser'')
   \<and> findPrivateEquityDeals no_client ''fintech'' =
       Inl (Fault ''An API Key must be set when running in a browser'')
   \<and> findResources no_client ''lithium'' None None =
       Inl (Fault ''An API Key must be set when running in a browser'')
   \<and> analyzeChartImage no_client (Some ''iVBORw0KGgo='') ''Analyze this financial chart.'' =
       Inl (Fault ''An API Key must be set when running in a browser'')"
  by (simp add: no_client_def gateway_rejects)

text \<open>
  C1, amended. With the client built, whenever the call of the service fails, each of
  the five operations resolves to its fixed sentinel: a string for
  \<open>getMarketUpdates\<close>, \<open>generateQuantPrediction\<close> and \<open>analyzeChartImage\<close>, a result with
  the sentinel text and no grounding chunks for \<open>findPrivateEquityDeals\<close> and
  \<open>findResources\<close>; and no operation rejects, whatever the service does. What
  \<^verbatim>\<open>getClient()\<close> throws is not caught: the operation rejects with it.
\<close>

theorem gateway_failure_sentinel:
  "(ai getMarketUpdates_request = Inl e \<longrightarrow>
      getMarketUpdates (Inr ai) = Inr ''SYSTEM ERROR: UNABLE TO FETCH MARKET DATA'')
   \<and> (ai (generateQuantPrediction_request query) = Inl e \<longrightarrow>
      generateQuantPrediction (Inr ai) query = Inr ''SYSTEM ERROR: QUANT MODEL CONNECTION FAILED'')
   \<and> (ai (findPrivateEquityDeals_request sector) = Inl e \<longrightarrow>
      findPrivateEquityDeals (Inr ai) sector =
        Inr \<lparr> result_text = ''SYSTEM ERROR: SEARCH TOOL MALFUNCTION'', groundingChunks = None \<rparr>)
   \<and> (ai (findResources_request rtype lat lng) = Inl e \<longrightarrow>
      findResources (Inr ai) rtype lat lng =
        Inr \<lparr> result_text = ''SYSTEM ERROR: GEOSPATIAL MODULE FAILURE'', groundingChunks = None \<rparr>)
   \<and> (ai (analyzeChartImage_request base64Image prompt) = Inl e \<longrightarrow>
      analyzeChartImage (Inr ai) base64Image prompt = Inr ''SYSTEM ERROR: VISION MODEL FAILURE'')
   \<and> (\<forall>f. getMarketUpdates (Inr ai) \<noteq> Inl f
          \<and> generateQuantPrediction (Inr ai) query \<noteq> Inl f
          \<and> findPrivateEquityDeals (Inr ai) sector \<noteq> Inl f
          \<and> findResources (Inr ai) rtype lat lng \<noteq> Inl f
          \<and> analyzeChartImage (Inr ai) base64Image prompt \<noteq> Inl f)
   \<and> getMarketUpdates (Inl thrown) = Inl thrown
   \<and> generateQuantPrediction (Inl thrown) query = Inl thrown
   \<and> findPrivateEquityDeals (Inl thrown) sector = Inl thrown
   \<and> findResources (Inl thrown) rtype lat lng = Inl thrown
   \<and> analyzeChartImage (Inl thrown) base64Image prompt = Inl thrown"
proof -
  have never: "\<And>x f. (\<exists>v. x = Inr v) \<Longrightarrow> x \<noteq> Inl f"
    by auto
  have sentinels:
    "ai getMarketUpdates_request = Inl e \<longrightarrow>
       getMarketUpdates (Inr ai) = Inr ''SYSTEM ERROR: UNABLE TO FETCH MARKET DATA''"
    "ai (generateQuantPrediction_request query) = Inl e \<longrightarrow>
       generateQuantPrediction (Inr ai) query = Inr ''SYSTEM ERROR: QUANT MODEL CONNECTION FAILED''"
    "ai (findPrivateEquityDeals_request sector) = Inl e \<longrightarrow>
       findPrivateEquityDeals (Inr ai) sector =
         Inr \<lparr> result_text = ''SYSTEM ERROR: SEARCH TOOL MALFUNCTION'', groundingChunks = None \<rparr>"
    "ai (findResources_request rtype lat lng) = Inl e \<longrightarrow>
       findResources (Inr ai) rtype lat lng =
         Inr \<lparr> result_text = ''SYSTEM ERROR: GEOSPATIAL MODULE FAILURE'', groundingChunks = None \<rparr>"
    "ai (analyzeChartImage_request base64Image prompt) = Inl e \<longrightarrow>
       analyzeChartImage (Inr ai) base64Image prompt = Inr ''SYSTEM ERROR: VISION MODEL FAILURE''"
    by (simp_all add: getMarketUpdates_def generateQuantPrediction_def findPrivateEquityDeals_def
        findResources_def analyzeChartImage_def)
  show ?thesis
    using sentinels
      never [OF getMarketUpdates_resolves [of ai]]
      never [OF generateQuantPrediction_resolves [of ai query]]
      never [OF findPrivateEquityDeals_resolves [of ai sector]]
      never [OF findResources_resolves [of ai rtype lat lng]]
      never [OF analyzeChartImage_resolves [of ai base64Image prompt]]
    by (simp add: gateway_rejects)
qed

theorem gateway_failure_sentinel_witness:
  "getMarketUpdates (Inr failing_service) = Inr ''SYSTEM ERROR: UNABLE TO FETCH MARKET DATA''
   \<and> generateQuantPrediction (Inr failing_service) ''rate cut impact on small caps'' =
       Inr ''SYSTEM ERROR: QUANT MODEL CONNECTION FAILED''
   \<and> findPrivateEquityDeals (Inr failing_service) ''fintech'' =
       Inr \<lparr> result_text = ''SYSTEM ERROR: SEARCH TOOL MALFUNCTION'', groundingChunks = None \<rparr>
   \<and> findResources (Inr failing_service) ''lithium'' (Some 10) (Some 20) =
       Inr \<lparr> result_text = ''SYSTEM ERROR: GEOSPATIAL MODULE FAILURE'', groundingChunks = None \<rparr>
   \<and> analyzeChartImage (Inr failing_service) (Some ''iVBORw0KGgo='')
         ''Analyze this financial chart.'' =
       Inr ''SYSTEM ERROR: VISION MODEL FAILURE''"
  using gateway_failure_sentinel [of failing_service "Fault ''network down''"
      "''rate cut impact on small caps''" "''fintech''" "''lithium''" "Some 10" "Some 20"
      "Some ''iVBORw0KGgo=''" "''Analyze this financial chart.''"]
  by (simp add: failing_service_def)

section \<open>The location constraint of \<open>findResources\<close>\<close>

lemma findResources_request_toolConfig:
  "toolConfig (findResources_request rtype lat lng) =
     (case (lat, lng) of
        (Some x, Some y) \<Rightarrow>
          if x \<noteq> 0 \<and> y \<noteq> 0 then Some \<lparr> latitude = x, longitude = y \<rparr> else None
      | _ \<Rightarrow> None)"
  by (cases lat; cases lng) (simp_all add: findResources_request_def)

text \<open>
  C7. A pair with a zero coordinate is supplied, and the request is built without a
  location constraint: the test \<^verbatim>\<open>lat && lng\<close> takes the number 0 for a missing argument.
\<close>

theorem findResources_zero_coordinate:
  "toolConfig (findResources_request ''lithium'' (Some 0) (Some 20)) = None"
  by (simp add: findResources_request_def)

section \<open>The media type of the uploaded image\<close>

lemma analyzeChartImage_result:
  "analyzeChartImage (Inr ai) base64Image prompt =
     (case ai (analyzeChartImage_request base64Image prompt) of
        Inl e \<Rightarrow> Inr ''SYSTEM ERROR: VISION MODEL FAILURE''
      | Inr response \<Rightarrow> Inr (or_str (response_text response) ''Analysis failed.''))"
  by (simp add: analyzeChartImage_def split: sum.splits)

text \<open>
  C10. For every payload and prompt, the one request \<open>analyzeChartImage\<close> sends
  declares its inline part as \<^verbatim>\<open>image/png\<close>: the operation resolves to the text of the
  answer the service gives to that request, and two services that agree on the
  requests declaring \<^verbatim>\<open>image/png\<close> give the same result. Every call the analysis
  handler issues is a call of this operation, whatever data URL the upload handler
  stored.
\<close>

theorem analyzeChartImage_declares_png:
  "declared_mimeTypes (analyzeChartImage_request base64Image prompt) = [''image/png'']
   \<and> (ai (analyzeChartImage_request base64Image prompt) = Inr response \<longrightarrow>
        analyzeChartImage (Inr ai) base64Image prompt =
          Inr (or_str (response_text response) ''Analysis failed.''))
   \<and> ((\<forall>req. declared_mimeTypes req = [''image/png''] \<longrightarrow> ai req = ai' req) \<longrightarrow>
        analyzeChartImage (Inr ai) base64Image prompt =
          analyzeChartImage (Inr ai') base64Image prompt)
   \<and> (snd (handleAnalysisSubmit st s) = Some c \<longrightarrow>
        (\<exists>b p. c = CallChartImage b p
           \<and> resume st' client c s' =
               (case analyzeChartImage client b p of
                  Inl e \<Rightarrow> s'
                | Inr res \<Rightarrow> handleAnalysisSubmit_resume st' res s'))
        \<and> declared_mimeTypes (call_request c) = [''image/png''])"
proof -
  have png: "declared_mimeTypes (analyzeChartImage_request base64Image prompt) = [''image/png'']"
    by (simp add: analyzeChartImage_request_def)
  have answer: "ai (analyzeChartImage_request base64Image prompt) = Inr response \<longrightarrow>
      analyzeChartImage (Inr ai) base64Image prompt =
        Inr (or_str (response_text response) ''Analysis failed.'')"
    by (simp add: analyzeChartImage_result)
  have only: "(\<forall>req. declared_mimeTypes req = [''image/png''] \<longrightarrow> ai req = ai' req) \<longrightarrow>
      analyzeChartImage (Inr ai) base64Image prompt =
        analyzeChartImage (Inr ai') base64Image prompt"
    using png by (simp add: analyzeChartImage_result)
  have handler: "snd (handleAnalysisSubmit st s) = Some c \<longrightarrow>
        (\<exists>b p. c = CallChartImage b p
           \<and> resume st' client c s' =
               (case analyzeChartImage client b p of
                  Inl e \<Rightarrow> s'
                | Inr res \<Rightarrow> handleAnalysisSubmit_resume st' res s'))
        \<and> declared_mimeTypes (call_request c) = [''image/png'']"
    by (auto simp add: analyzeChartImage_request_def handleAnalysisSubmit_def
        split: option.splits if_splits)
  from png answer only handler show ?thesis
    by blast
qed

theorem analyzeChartImage_declares_png_witness:
  "snd (handleAnalysisSubmit stamp0 jpeg_state) =
     Some (CallChartImage (Some ''/9j/4AAQSkZJRg=='') ''Analyze this financial chart.'')
   \<and> analyzeChartImage (Inr mime_echo_service) (Some ''/9j/4AAQSkZJRg=='')
        ''Analyze this financial chart.'' = Inr ''image/png''
   \<and> analyzeChartImage (Inr png_only_service) (Some ''/9j/4AAQSkZJRg=='')
        ''Analyze this financial chart.'' = Inr ''image/png''
   \<and> declared_mimeTypes
        (call_request (CallChartImage (Some ''/9j/4AAQSkZJRg=='') ''Analyze this financial chart.'')) =
       [''image/png'']"
proof -
  have c: "snd (handleAnalysisSubmit stamp0 jpeg_state) =
     Some (CallChartImage (Some ''/9j/4AAQSkZJRg=='') ''Analyze this financial chart.'')"
    by (simp add: handleAnalysisSubmit_def jpeg_state_def initial_state_def index_def)
  have agree: "\<forall>req. declared_mimeTypes req = [''image/png''] \<longrightarrow>
      mime_echo_service req = png_only_service req"
    by (simp add: png_only_service_def)
  note th = analyzeChartImage_declares_png [of "Some ''/9j/4AAQSkZJRg==''"
      "''Analyze this financial chart.''" mime_echo_service
      "\<lparr> response_text = Some ''image/png'', candidates = None \<rparr>" png_only_service
      stamp0 jpeg_state
      "CallChartImage (Some ''/9j/4AAQSkZJRg=='') ''Analyze this financial chart.''"]
  from th have png: "declared_mimeTypes
      (analyzeChartImage_request (Some ''/9j/4AAQSkZJRg=='') ''Analyze this financial chart.'') =
      [''image/png'']"
    by blast
  then have echo: "mime_echo_service
      (analyzeChartImage_request (Some ''/9j/4AAQSkZJRg=='') ''Analyze this financial chart.'') =
      Inr \<lparr> response_text = Some ''image/png'', candidates = None \<rparr>"
    by (simp add: mime_echo_service_def)
  from th echo have first: "analyzeChartImage (Inr mime_echo_service) (Some ''/9j/4AAQSkZJRg=='')
      ''Analyze this financial chart.'' = Inr ''image/png''"
    by simp
  from th agree have "analyzeChartImage (Inr mime_echo_service) (Some ''/9j/4AAQSkZJRg=='')
      ''Analyze this financial chart.'' =
      analyzeChartImage (Inr png_only_service) (Some ''/9j/4AAQSkZJRg=='')
      ''Analyze this financial chart.''"
    by blast
  with first have second: "analyzeChartImage (Inr png_only_service) (Some ''/9j/4AAQSkZJRg=='')
      ''Analyze this financial chart.'' = Inr ''image/png''"
    by simp
  from th c have "declared_mimeTypes
      (call_request (CallChartImage (Some ''/9j/4AAQSkZJRg=='') ''Analyze this financial chart.'')) =
      [''image/png'']"
    by blast
  with c first second show ?thesis
    by blast
qed

section \<open>Grounding chunks: handed on by the Gateway, filtered by the renderer\<close>







lemma length_visible_chunk_items:
  "length (visible (chunk_items i cs)) = length (filter (\<lambda>c. chunk_item 0 c \<noteq> None) cs)"
proof (induction cs arbitrary: i)
  case Nil
  then show ?case by simp
next
  case (Cons c cs)
  have "(chunk_item i c = None) = (chunk_item 0 c = None)"
    by (auto simp add: chunk_item_def Let_def split: option.splits)
  with Cons.IH [of "Suc i"] show ?case
    by (cases "chunk_item i c"; cases "chunk_item 0 c") simp_all
qed



section \<open>The log buffer\<close>

lemma systemLogs_addLog:
  "systemLogs (addLog st msg lvl s) =
     \<lparr> entry_id = rnd_id st, timestamp = now st, level = lvl, message = msg \<rparr>
     # take 49 (systemLogs s)"
  by (simp add: addLog_def)

lemma requestState_addLog [simp]: "requestState t (addLog st msg lvl s) = requestState t s"
  by (cases t) (simp_all add: addLog_def)

lemma addLog_fields [simp]:
  "activeModule (addLog st msg lvl s) = activeModule s"
  "quantQuery (addLog st msg lvl s) = quantQuery s"
  "quantResult (addLog st msg lvl s) = quantResult s"
  "quantLoading (addLog st msg lvl s) = quantLoading s"
  "dealSector (addLog st msg lvl s) = dealSector s"
  "dealResult (addLog st msg lvl s) = dealResult s"
  "dealLoading (addLog st msg lvl s) = dealLoading s"
  "resourceType (addLog st msg lvl s) = resourceType s"
  "resourceResult (addLog st msg lvl s) = resourceResult s"
  "resourceLoading (addLog st msg lvl s) = resourceLoading s"
  "headlines (addLog st msg lvl s) = headlines s"
  "analysisPrompt (addLog st msg lvl s) = analysisPrompt s"
  "analysisImage (addLog st msg lvl s) = analysisImage s"
  "analysisResult (addLog st msg lvl s) = analysisResult s"
  "analysisLoading (addLog st msg lvl s) = analysisLoading s"
  by (simp_all add: addLog_def)

lemma length_addLog: "length (systemLogs (addLog st msg lvl s)) \<le> 50"
  by (simp add: addLog_def)

section \<open>Settlement\<close>

text \<open>
  A settlement runs the second half of the handler that awaits the call when the
  client was built, and nothing when it was not.
\<close>

lemmas resume_defs =
  marketUpdates_resume_def handleQuantSubmit_resume_def handleDealSubmit_resume_def
  handleResourceSubmit_resume_def handleAnalysisSubmit_resume_def

lemma resume_rejected: "resume st (Inl thrown) c s = s"
  by (cases c) (simp_all add: gateway_rejects)

lemma resume_resolved:
  "(c = CallMarketUpdates \<and> (\<exists>v. resume st (Inr ai) c s = marketUpdates_resume st v s))
   \<or> (\<exists>q v. c = CallQuantPrediction q \<and> resume st (Inr ai) c s = handleQuantSubmit_resume st v s)
   \<or> (\<exists>q v. c = CallPrivateEquityDeals q \<and> resume st (Inr ai) c s = handleDealSubmit_resume st v s)
   \<or> (\<exists>q lat lng v. c = CallResources q lat lng
         \<and> resume st (Inr ai) c s = handleResourceSubmit_resume st v s)
   \<or> (\<exists>b p v. c = CallChartImage b p \<and> resume st (Inr ai) c s = handleAnalysisSubmit_resume st v s)"
proof (cases c)
  case CallMarketUpdates
  then show ?thesis using getMarketUpdates_resolves [of ai] by auto
next
  case (CallQuantPrediction q)
  then show ?thesis using generateQuantPrediction_resolves [of ai q] by auto
next
  case (CallPrivateEquityDeals q)
  then show ?thesis using findPrivateEquityDeals_resolves [of ai q] by auto
next
  case (CallResources q lat lng)
  then show ?thesis using findResources_resolves [of ai q lat lng] by auto
next
  case (CallChartImage b p)
  then show ?thesis using analyzeChartImage_resolves [of ai b p] by auto
qed

lemma resume_isLoading_resolved:
  "isLoading t (resume st (Inr ai) c s) = (if t = call_task c then False else isLoading t s)"
  using resume_resolved [of c st ai s]
  by (cases t) (auto simp add: isLoading_def resume_defs)

lemma resume_isLoading:
  "isLoading t (resume st client c s) =
     (if t = call_task c \<and> \<not> isl client then False else isLoading t s)"
  by (cases client) (simp_all add: resume_rejected resume_isLoading_resolved)

lemma resume_frame:
  "t \<noteq> call_task c \<Longrightarrow> requestState t (resume st client c s) = requestState t s"
proof (cases client)
  case (Inl thrown)
  then show ?thesis by (simp add: resume_rejected)
next
  case (Inr ai)
  assume "t \<noteq> call_task c"
  with Inr show ?thesis
    using resume_resolved [of c st ai s]
    by (cases t) (auto simp add: resume_defs)
qed

lemma resume_input: "fst (requestState t (resume st client c s)) = fst (requestState t s)"
proof (cases client)
  case (Inl thrown)
  then show ?thesis by (simp add: resume_rejected)
next
  case (Inr ai)
  then show ?thesis
    using resume_resolved [of c st ai s]
    by (cases t) (auto simp add: resume_defs)
qed

lemma resume_logs:
  "length (systemLogs s) \<le> 50 \<Longrightarrow> length (systemLogs (resume st client c s)) \<le> 50"
proof (cases client)
  case (Inl thrown)
  assume "length (systemLogs s) \<le> 50"
  with Inl show ?thesis by (simp add: resume_rejected)
next
  case (Inr ai)
  then show ?thesis
    using resume_resolved [of c st ai s]
    by (auto simp add: resume_defs length_addLog)
qed

section \<open>Events\<close>

lemmas handler_defs =
  handleQuantSubmit_def handleDealSubmit_def handleResourceSubmit_def handleAnalysisSubmit_def
  handleFileUpload_loaded_def tick_def issue_def

lemma fire_frame:
  "event_task e \<sigma> \<noteq> Some t \<Longrightarrow> requestState t (app (fire e \<sigma>)) = requestState t (app \<sigma>)"
proof (cases e)
  case (Settle i client st)
  assume "event_task e \<sigma> \<noteq> Some t"
  with Settle show ?thesis
    by (auto simp add: resume_frame)
qed (cases t; auto simp add: handler_defs split: option.splits)+

lemma fire_input:
  "input_event e \<noteq> Some t \<Longrightarrow>
     fst (requestState t (app (fire e \<sigma>))) = fst (requestState t (app \<sigma>))"
proof (cases e)
  case (Settle i client st)
  then show ?thesis
    by (simp add: resume_input)
qed (cases t; auto simp add: handler_defs split: option.splits)+

lemma fire_result:
  "handler_event e \<sigma> \<noteq> Some t \<Longrightarrow>
     snd (requestState t (app (fire e \<sigma>))) = snd (requestState t (app \<sigma>))"
proof (cases e)
  case (Settle i client st)
  assume "handler_event e \<sigma> \<noteq> Some t"
  with Settle show ?thesis
    by (auto simp add: resume_frame)
qed (cases t; auto simp add: handler_defs split: option.splits)+

lemma fire_logs:
  "length (systemLogs (app \<sigma>)) \<le> 50 \<Longrightarrow> length (systemLogs (app (fire e \<sigma>))) \<le> 50"
  by (cases e) (auto simp add: handler_defs resume_logs length_addLog split: option.splits)

lemma reachable_logs: "reachable \<sigma> \<Longrightarrow> length (systemLogs (app \<sigma>)) \<le> 50"
  by (induction rule: reachable.induct) (simp_all add: mounted_def length_addLog fire_logs)

section \<open>The loading flag and the pending call\<close>

lemma filter_without_nth:
  "i < length xs \<Longrightarrow>
     length (filter P xs) =
       length (filter P (take i xs @ drop (Suc i) xs)) + (if P (xs ! i) then 1 else 0)"
proof -
  assume "i < length xs"
  then have "xs = take i xs @ xs ! i # drop (Suc i) xs"
    by (rule id_take_nth_drop)
  then have "filter P xs = filter P (take i xs @ xs ! i # drop (Suc i) xs)"
    by simp
  then show ?thesis
    by (simp del: append_take_drop_id)
qed

lemma pending_settle:
  assumes "i < length (inflight \<sigma>)"
  shows "length (pending t \<sigma>) =
     length (pending t (fire (Settle i client st) \<sigma>))
     + (if call_task (inflight \<sigma> ! i) = t then 1 else 0)"
  using filter_without_nth [OF assms, of "\<lambda>c. call_task c = t"] assms
  by (simp add: pending_def)

lemma covered_settle:
  assumes "covered t \<sigma>" and "i < length (inflight \<sigma>)"
  shows "covered t (fire (Settle i client st) \<sigma>)"
  using assms pending_settle [OF assms(2), of t client st]
  by (auto simp add: covered_def resume_isLoading split: if_splits)

lemma covered_fire:
  assumes "covered t \<sigma>" and "t \<noteq> MarketDigest"
  shows "covered t (fire e \<sigma>)"
proof (cases e)
  case (Settle i client st)
  show ?thesis
  proof (cases "i < length (inflight \<sigma>)")
    case True
    with assms(1) Settle show ?thesis
      by (simp only: covered_settle)
  next
    case False
    with assms(1) Settle show ?thesis
      by simp
  qed
qed (use assms in \<open>cases t; auto simp add: covered_def pending_def isLoading_def handler_defs
       split: option.splits if_splits\<close>)+

lemma covered_mounted: "t \<noteq> MarketDigest \<Longrightarrow> covered t (mounted st1 st2)"
  by (cases t) (simp_all add: covered_def pending_def isLoading_def mounted_def initial_state_def)

lemma reachable_covered: "reachable \<sigma> \<Longrightarrow> t \<noteq> MarketDigest \<Longrightarrow> covered t \<sigma>"
  by (induction rule: reachable.induct) (simp_all add: covered_mounted covered_fire)

lemma tracked_settle:
  assumes "tracked t \<sigma>" and "i < length (inflight \<sigma>)"
  shows "tracked t (fire (Settle i (Inr ai) st) \<sigma>)"
  using assms pending_settle [OF assms(2), of t "Inr ai" st]
  by (auto simp add: tracked_def resume_isLoading split: if_splits)

lemma tracked_fire:
  assumes "tracked t \<sigma>" and "t \<noteq> MarketDigest" and "resolving e"
  shows "tracked t (fire e \<sigma>)"
proof (cases e)
  case (Settle i client st)
  with assms(3) obtain ai where client: "client = Inr ai"
    by (cases client) simp_all
  show ?thesis
  proof (cases "i < length (inflight \<sigma>)")
    case True
    with assms(1) Settle client show ?thesis
      by (simp only: tracked_settle)
  next
    case False
    with assms(1) Settle show ?thesis
      by simp
  qed
qed (use assms in \<open>cases t; auto simp add: tracked_def pending_def isLoading_def handler_defs
       split: option.splits if_splits\<close>)+

lemma tracked_mounted: "t \<noteq> MarketDigest \<Longrightarrow> tracked t (mounted st1 st2)"
  by (cases t) (simp_all add: tracked_def pending_def isLoading_def mounted_def initial_state_def)

lemma tracked_run:
  "tracked t \<sigma> \<Longrightarrow> t \<noteq> MarketDigest \<Longrightarrow> list_all resolving es \<Longrightarrow> tracked t (run es \<sigma>)"
  by (induction es arbitrary: \<sigma>) (simp_all add: tracked_fire)

lemma reachable_run: "reachable \<sigma> \<Longrightarrow> reachable (run es \<sigma>)"
  by (induction es arbitrary: \<sigma>) (simp_all add: reachable_fire)

section \<open>No call of the controller carries coordinates\<close>

lemma unlocated_fire:
  "list_all unlocated (inflight \<sigma>) \<Longrightarrow> list_all unlocated (inflight (fire e \<sigma>))"
proof (cases e)
  case (Settle i out st)
  assume a: "list_all unlocated (inflight \<sigma>)"
  have "set (take i (inflight \<sigma>) @ drop (Suc i) (inflight \<sigma>)) \<subseteq> set (inflight \<sigma>)"
    using set_take_subset set_drop_subset by fastforce
  with a Settle show ?thesis
    by (auto simp add: list_all_iff)
qed (auto simp add: handler_defs split: option.splits)

lemma reachable_unlocated: "reachable \<sigma> \<Longrightarrow> list_all unlocated (inflight \<sigma>)"
  by (induction rule: reachable.induct) (simp_all add: mounted_def unlocated_fire)

section \<open>Submission and settlement of a task\<close>

lemma loading_flips:
  "(\<not> isLoading t (app \<sigma>) \<and> isLoading t (app (fire e \<sigma>)) \<longrightarrow> (\<exists>st. submit t st = Some e))
   \<and> (isLoading t (app \<sigma>) \<and> \<not> isLoading t (app (fire e \<sigma>)) \<longrightarrow>
        (\<exists>i ai st. e = Settle i (Inr ai) st \<and> i < length (inflight \<sigma>)
           \<and> call_task (inflight \<sigma> ! i) = t))"
proof (cases e)
  case (Settle i client st)
  then show ?thesis
    by (cases client) (auto simp add: resume_isLoading split: if_splits)
qed (cases t; auto simp add: isLoading_def handler_defs split: option.splits if_splits)+

lemma submit_valid:
  assumes "submit t st = Some e" and "validInput (fst (requestState t (app \<sigma>)))"
    and "\<not> isLoading t (app \<sigma>)"
  shows "isLoading t (app (fire e \<sigma>)) \<and> (\<exists>c. call_task c = t \<and> inflight (fire e \<sigma>) = inflight \<sigma> @ [c])"
  using assms
  by (cases t) (auto simp add: isLoading_def handler_defs split: option.splits)

lemma submit_loading:
  assumes "submit t st = Some e" and "isLoading t (app \<sigma>)"
  shows "fire e \<sigma> = \<sigma>"
  using assms by (cases t) (auto simp add: isLoading_def)

lemma submit_invalid:
  assumes "submit t st = Some e" and "\<not> validInput (fst (requestState t (app \<sigma>)))"
  shows "fire e \<sigma> = \<sigma>"
  using assms by (cases t) (auto simp add: handler_defs split: option.splits)

subsection \<open>The sample systems\<close>

lemma reachable_ready: "reachable ready_system"
  unfolding ready_system_def by (intro reachable.intros)

lemma reachable_loading: "reachable loading_system"
  unfolding loading_system_def by (intro reachable.intros reachable_ready)

lemma inflight_ready: "inflight ready_system = [CallMarketUpdates]"
  by (simp add: ready_system_def mounted_def)

lemma quantQuery_ready: "quantQuery (app ready_system) = ''rate cut impact on small caps''"
  by (simp add: ready_system_def mounted_def)

lemma quantLoading_ready: "\<not> quantLoading (app ready_system)"
  by (simp add: ready_system_def mounted_def initial_state_def)

lemma inflight_loading:
  "inflight loading_system = [CallMarketUpdates, CallQuantPrediction ''rate cut impact on small caps'']"
  by (simp add: loading_system_def handler_defs inflight_ready quantQuery_ready quantLoading_ready)

lemma quantLoading_loading: "quantLoading (app loading_system)"
  by (simp add: loading_system_def handler_defs quantQuery_ready quantLoading_ready)

lemma loading_system_run:
  "loading_system =
     run [SetQuantQuery ''rate cut impact on small caps'', SubmitQuant stamp0] (mounted stamp0 stamp0)"
  by (simp add: loading_system_def ready_system_def)

text \<open>
  C2, as stated, fails: the call of the quant task settles with a rejection, because
  the client could not be built; the handler does not go on, and the flag is still set
  with no call pending.
\<close>

theorem rejected_call_leaves_flag_set:
  "isLoading QuantPrediction (app loading_system)
   \<and> inflight loading_system ! 1 = CallQuantPrediction ''rate cut impact on small caps''
   \<and> isLoading QuantPrediction (app (fire (Settle 1 no_client stamp0) loading_system))
   \<and> pending QuantPrediction (fire (Settle 1 no_client stamp0) loading_system) = []"
  by (simp add: isLoading_def quantLoading_loading inflight_loading pending_def no_client_def
      gateway_rejects)

text \<open>
  C2, amended. In every state the application can reach through its events, and for
  each of the four tasks with a submit control: at most one call of the task is
  pending, and none while the flag is clear. A submit with valid input on an idle task
  sets the flag and issues one call of that task; a submit while the flag is set does
  nothing, the control being disabled. The settlement of the task's call finds the
  flag set and leaves no call of the task pending; when the promise resolves, which it
  does whenever the client was built, the settlement clears the flag. The flag is set
  by no event but a submit of the task, and cleared by no event but the resolving
  settlement of a call of the task. As long as every settlement resolves, the flag is
  set exactly while the task has its one call pending.
\<close>

theorem isLoading_once_per_submit:
  assumes "reachable \<sigma>" and "t \<noteq> MarketDigest"
  shows "length (pending t \<sigma>) \<le> (if isLoading t (app \<sigma>) then 1 else 0)
   \<and> (submit t st = Some e \<and> validInput (fst (requestState t (app \<sigma>))) \<and> \<not> isLoading t (app \<sigma>) \<longrightarrow>
        isLoading t (app (fire e \<sigma>))
        \<and> (\<exists>c. call_task c = t \<and> inflight (fire e \<sigma>) = inflight \<sigma> @ [c]))
   \<and> (submit t st = Some e \<and> isLoading t (app \<sigma>) \<longrightarrow> fire e \<sigma> = \<sigma>)
   \<and> (i < length (inflight \<sigma>) \<and> call_task (inflight \<sigma> ! i) = t \<longrightarrow>
        isLoading t (app \<sigma>)
        \<and> \<not> isLoading t (app (fire (Settle i (Inr ai) st') \<sigma>))
        \<and> pending t (fire (Settle i client st') \<sigma>) = [])
   \<and> (\<not> isLoading t (app \<sigma>) \<and> isLoading t (app (fire e' \<sigma>)) \<longrightarrow> (\<exists>st. submit t st = Some e'))
   \<and> (isLoading t (app \<sigma>) \<and> \<not> isLoading t (app (fire e' \<sigma>)) \<longrightarrow>
        (\<exists>i ai st. e' = Settle i (Inr ai) st \<and> i < length (inflight \<sigma>)
           \<and> call_task (inflight \<sigma> ! i) = t))
   \<and> (list_all resolving es \<longrightarrow>
        length (pending t (run es (mounted st1 st2))) =
          (if isLoading t (app (run es (mounted st1 st2))) then 1 else 0))"
proof -
  have inv: "covered t \<sigma>"
    using assms by (rule reachable_covered)
  have settle: "isLoading t (app \<sigma>)
        \<and> \<not> isLoading t (app (fire (Settle i (Inr ai) st') \<sigma>))
        \<and> pending t (fire (Settle i client st') \<sigma>) = []"
    if i: "i < length (inflight \<sigma>)" and c: "call_task (inflight \<sigma> ! i) = t"
  proof -
    have one: "length (pending t \<sigma>) = length (pending t (fire (Settle i client st') \<sigma>)) + 1"
      using pending_settle [OF i, of t client st'] c by simp
    with inv have l: "isLoading t (app \<sigma>)"
      by (auto simp add: covered_def split: if_splits)
    from one inv have none: "pending t (fire (Settle i client st') \<sigma>) = []"
      by (auto simp add: covered_def split: if_splits)
    have after: "\<not> isLoading t (app (fire (Settle i (Inr ai) st') \<sigma>))"
      using i c by (simp add: resume_isLoading)
    from l after none show ?thesis
      by simp
  qed
  have exact: "length (pending t (run es (mounted st1 st2))) =
          (if isLoading t (app (run es (mounted st1 st2))) then 1 else 0)"
    if "list_all resolving es"
    using tracked_run [OF tracked_mounted [OF assms(2)] assms(2) that]
    by (simp add: tracked_def)
  from inv have "length (pending t \<sigma>) \<le> (if isLoading t (app \<sigma>) then 1 else 0)"
    by (simp add: covered_def)
  with settle exact submit_valid [of t st e \<sigma>] submit_loading [of t st e \<sigma>]
    loading_flips [of t \<sigma> e']
  show ?thesis
    by blast
qed

theorem isLoading_once_per_submit_witness:
  "\<not> isLoading QuantPrediction (app ready_system)
   \<and> isLoading QuantPrediction (app (fire (SubmitQuant stamp0) ready_system))
   \<and> length (pending QuantPrediction loading_system) = 1
   \<and> fire (SubmitQuant stamp0) loading_system = loading_system
   \<and> \<not> isLoading QuantPrediction
        (app (fire (Settle 1 (Inr (answering (Inr quant_response))) stamp0) loading_system))
   \<and> pending QuantPrediction
        (fire (Settle 1 (Inr (answering (Inr quant_response))) stamp0) loading_system) = []"
proof -
  have t: "QuantPrediction \<noteq> MarketDigest"
    by simp
  have idle: "\<not> isLoading QuantPrediction (app ready_system)"
    by (simp add: isLoading_def quantLoading_ready)
  have busy: "isLoading QuantPrediction (app loading_system)"
    by (simp add: isLoading_def quantLoading_loading)
  have s: "submit QuantPrediction stamp0 = Some (SubmitQuant stamp0)"
    by simp
  have v: "validInput (fst (requestState QuantPrediction (app ready_system)))"
    by (simp add: quantQuery_ready)
  have i: "1 < length (inflight loading_system)
      \<and> call_task (inflight loading_system ! 1) = QuantPrediction"
    by (simp add: inflight_loading)
  have r: "list_all resolving
      [SetQuantQuery ''rate cut impact on small caps'', SubmitQuant stamp0]"
    by simp
  from isLoading_once_per_submit [OF reachable_ready t, of stamp0 "SubmitQuant stamp0"] s v idle
  have first: "isLoading QuantPrediction (app (fire (SubmitQuant stamp0) ready_system))"
    by blast
  note th = isLoading_once_per_submit [OF reachable_loading t, of stamp0 "SubmitQuant stamp0" 1
      "answering (Inr quant_response)" stamp0 "Inr (answering (Inr quant_response))" _
      "[SetQuantQuery ''rate cut impact on small caps'', SubmitQuant stamp0]" stamp0 stamp0]
  from th r have "length (pending QuantPrediction
      (run [SetQuantQuery ''rate cut impact on small caps'', SubmitQuant stamp0]
        (mounted stamp0 stamp0))) =
      (if isLoading QuantPrediction
        (app (run [SetQuantQuery ''rate cut impact on small caps'', SubmitQuant stamp0]
          (mounted stamp0 stamp0))) then 1 else 0)"
    by blast
  then have len: "length (pending QuantPrediction loading_system) = 1"
    unfolding loading_system_run [symmetric] using busy by simp
  from th s busy i len
  have second: "length (pending QuantPrediction loading_system) = 1
      \<and> fire (SubmitQuant stamp0) loading_system = loading_system
      \<and> \<not> isLoading QuantPrediction
          (app (fire (Settle 1 (Inr (answering (Inr quant_response))) stamp0) loading_system))
      \<and> pending QuantPrediction
          (fire (Settle 1 (Inr (answering (Inr quant_response))) stamp0) loading_system) = []"
    by blast
  from idle first second show ?thesis
    by blast
qed

section \<open>Submitting without input\<close>

text \<open>
  C3, as stated, fails: a query of one blank is submitted. The handler sets the loading
  flag, appends a log entry and calls the Gateway with the blank.
\<close>

theorem whitespace_query_is_submitted:
  "\<not> quantLoading whitespace_state
   \<and> quantLoading (fst (handleQuantSubmit stamp0 whitespace_state))
   \<and> snd (handleQuantSubmit stamp0 whitespace_state) = Some (CallQuantPrediction '' '')
   \<and> length (systemLogs whitespace_state) = 0
   \<and> length (systemLogs (fst (handleQuantSubmit stamp0 whitespace_state))) = 1"
  by (simp add: whitespace_state_def initial_state_def handleQuantSubmit_def addLog_def)

text \<open>
  C3, amended. A submit whose required input is empty (the empty string, or no image)
  changes no state and issues no Gateway call: each of the four handlers returns the
  state as it was and no call, and the submit event leaves the system as it was.
\<close>

theorem empty_submit_noop:
  "(quantQuery s = [] \<longrightarrow> handleQuantSubmit st s = (s, None))
   \<and> (dealSector s = [] \<longrightarrow> handleDealSubmit st s = (s, None))
   \<and> (resourceType s = [] \<longrightarrow> handleResourceSubmit st s = (s, None))
   \<and> (analysisImage s = None \<or> analysisImage s = Some [] \<longrightarrow> handleAnalysisSubmit st s = (s, None))
   \<and> (submit t st = Some e \<and> \<not> validInput (fst (requestState t (app \<sigma>))) \<longrightarrow> fire e \<sigma> = \<sigma>)"
  using submit_invalid [of t st e \<sigma>]
  by (auto simp add: handleQuantSubmit_def handleDealSubmit_def handleResourceSubmit_def
      handleAnalysisSubmit_def)

theorem empty_submit_noop_witness:
  "handleQuantSubmit stamp0 initial_state = (initial_state, None)
   \<and> handleDealSubmit stamp0 initial_state = (initial_state, None)
   \<and> handleResourceSubmit stamp0 initial_state = (initial_state, None)
   \<and> handleAnalysisSubmit stamp0 initial_state = (initial_state, None)
   \<and> fire (SubmitDeal stamp0) ready_system = ready_system"
proof -
  have e: "quantQuery initial_state = [] \<and> dealSector initial_state = []
      \<and> resourceType initial_state = [] \<and> analysisImage initial_state = None"
    by (simp add: initial_state_def)
  have s: "submit DealSourcing stamp0 = Some (SubmitDeal stamp0)"
    by simp
  have v: "\<not> validInput (fst (requestState DealSourcing (app ready_system)))"
    by (simp add: ready_system_def mounted_def initial_state_def)
  from empty_submit_noop [of initial_state stamp0 DealSourcing "SubmitDeal stamp0" ready_system] e s v
  show ?thesis
    by blast
qed

section \<open>The capacity of the log buffer\<close>

lemma take_through_cap: "take 50 (xs @ e # take 49 ys) = take 50 (xs @ e # ys)"
  by (simp add: take_Cons')

lemma systemLogs_addLog_logged:
  "systemLogs (addLog st msg lvl s) = logged (st, msg, lvl) # take 49 (systemLogs s)"
  by (simp add: addLog_def)

lemma systemLogs_addLogs:
  "length (systemLogs s) \<le> 50 \<Longrightarrow>
     systemLogs (addLogs calls s) = take 50 (rev (map logged calls) @ systemLogs s)"
proof (induction calls arbitrary: s)
  case Nil
  then show ?case by simp
next
  case (Cons c calls)
  obtain st msg lvl where c: "c = (st, msg, lvl)"
    by (cases c)
  have "systemLogs (addLogs (c # calls) s) = systemLogs (addLogs calls (addLog st msg lvl s))"
    using c by simp
  also have "\<dots> = take 50 (rev (map logged calls) @ systemLogs (addLog st msg lvl s))"
    by (rule Cons.IH) (rule length_addLog)
  also have "\<dots> = take 50 (rev (map logged calls) @ logged c # take 49 (systemLogs s))"
    using c by (simp only: systemLogs_addLog_logged)
  also have "\<dots> = take 50 (rev (map logged calls) @ logged c # systemLogs s)"
    by (rule take_through_cap)
  also have "\<dots> = take 50 (rev (map logged (c # calls)) @ systemLogs s)"
    by simp
  finally show ?case .
qed

text \<open>
  C5. \<open>addLog\<close> puts the new entry in front of the first 49 entries of the buffer, so
  the buffer holds at most 50 entries, newest first. Below 50 entries nothing is
  dropped. On a buffer of 50 entries the result has 50 entries again: the new entry,
  followed by the old entries without the last (the oldest) in their order; where the
  entries are distinct, the evicted one is no longer in the buffer. After any sequence
  of appends the buffer holds the 50 newest entries, newest first. In every reachable
  state the buffer holds at most 50 entries.
\<close>

theorem addLog_ring_buffer:
  "systemLogs (addLog st msg lvl s) = logged (st, msg, lvl) # take 49 (systemLogs s)
   \<and> length (systemLogs (addLog st msg lvl s)) \<le> 50
   \<and> (length (systemLogs s) < 50 \<longrightarrow>
        systemLogs (addLog st msg lvl s) = logged (st, msg, lvl) # systemLogs s)
   \<and> (length (systemLogs s) = 50 \<longrightarrow>
        length (systemLogs (addLog st msg lvl s)) = 50
        \<and> hd (systemLogs (addLog st msg lvl s)) = logged (st, msg, lvl)
        \<and> tl (systemLogs (addLog st msg lvl s)) = butlast (systemLogs s)
        \<and> systemLogs s = tl (systemLogs (addLog st msg lvl s)) @ [last (systemLogs s)]
        \<and> (distinct (logged (st, msg, lvl) # systemLogs s) \<longrightarrow>
             last (systemLogs s) \<notin> set (systemLogs (addLog st msg lvl s))))
   \<and> (length (systemLogs s) \<le> 50 \<longrightarrow>
        systemLogs (addLogs calls s) = take 50 (rev (map logged calls) @ systemLogs s))
   \<and> (reachable \<sigma> \<longrightarrow> length (systemLogs (app \<sigma>)) \<le> 50)"
proof -
  have full: "length (systemLogs (addLog st msg lvl s)) = 50
        \<and> hd (systemLogs (addLog st msg lvl s)) = logged (st, msg, lvl)
        \<and> tl (systemLogs (addLog st msg lvl s)) = butlast (systemLogs s)
        \<and> systemLogs s = tl (systemLogs (addLog st msg lvl s)) @ [last (systemLogs s)]
        \<and> (distinct (logged (st, msg, lvl) # systemLogs s) \<longrightarrow>
             last (systemLogs s) \<notin> set (systemLogs (addLog st msg lvl s)))"
    if n: "length (systemLogs s) = 50"
  proof -
    from n have ne: "systemLogs s \<noteq> []"
      by auto
    from n have t: "take 49 (systemLogs s) = butlast (systemLogs s)"
      by (simp add: butlast_conv_take)
    have evicted: "last (systemLogs s) \<notin> set (logged (st, msg, lvl) # butlast (systemLogs s))"
      if d: "distinct (logged (st, msg, lvl) # systemLogs s)"
    proof -
      from ne have "systemLogs s = butlast (systemLogs s) @ [last (systemLogs s)]"
        by simp
      with d have "distinct (logged (st, msg, lvl) # butlast (systemLogs s) @ [last (systemLogs s)])"
        by simp
      then show ?thesis
        by auto
    qed
    from n ne t evicted show ?thesis
      by (simp add: systemLogs_addLog_logged)
  qed
  have exact: "systemLogs (addLog st msg lvl s) = logged (st, msg, lvl) # take 49 (systemLogs s)"
    by (rule systemLogs_addLog_logged)
  have bound: "length (systemLogs (addLog st msg lvl s)) \<le> 50"
    by (rule length_addLog)
  have below: "length (systemLogs s) < 50 \<longrightarrow>
      systemLogs (addLog st msg lvl s) = logged (st, msg, lvl) # systemLogs s"
    by (simp add: systemLogs_addLog_logged)
  from exact bound below full systemLogs_addLogs [of s calls] reachable_logs [of \<sigma>]
  show ?thesis
    by blast
qed

lemma logged_sample_inj: "inj (\<lambda>n. logged (sample_log n))"
  by (rule injI) (simp add: sample_log_def replicate_eq_replicate)

lemma systemLogs_full:
  "systemLogs full_log_state = map (\<lambda>n. logged (sample_log n)) (rev [0..<50])"
proof -
  have "systemLogs full_log_state =
      take 50 (rev (map logged (map sample_log [0..<50])) @ systemLogs initial_state)"
    unfolding full_log_state_def by (rule systemLogs_addLogs) (simp add: initial_state_def)
  then show ?thesis
    by (simp add: initial_state_def rev_map comp_def del: upt_rec_numeral)
qed

theorem addLog_ring_buffer_witness:
  "length (systemLogs full_log_state) = 50
   \<and> last (systemLogs full_log_state) = logged (sample_log 0)
   \<and> length (systemLogs (addLog stamp0 (replicate 50 CHR ''.'') INFO full_log_state)) = 50
   \<and> hd (systemLogs (addLog stamp0 (replicate 50 CHR ''.'') INFO full_log_state)) =
        logged (sample_log 50)
   \<and> tl (systemLogs (addLog stamp0 (replicate 50 CHR ''.'') INFO full_log_state)) =
        butlast (systemLogs full_log_state)
   \<and> logged (sample_log 0) \<notin>
        set (systemLogs (addLog stamp0 (replicate 50 CHR ''.'') INFO full_log_state))
   \<and> systemLogs (addLogs (map sample_log [0..<51]) initial_state) =
        systemLogs (addLog stamp0 (replicate 50 CHR ''.'') INFO full_log_state)
   \<and> length (systemLogs (app loading_system)) \<le> 50"
proof -
  have n: "length (systemLogs full_log_state) = 50"
    by (simp add: systemLogs_full del: upt_rec_numeral)
  have l: "last (systemLogs full_log_state) = logged (sample_log 0)"
    by (simp add: systemLogs_full last_map last_rev del: upt_rec_numeral)
  have new: "logged (stamp0, replicate 50 CHR ''.'', INFO) = logged (sample_log 50)"
    by (simp add: sample_log_def)
  have up: "[0..<51] = [0..<50] @ [50::nat]"
    using upt_Suc_append [of 0 50] by simp
  have "distinct (map (\<lambda>n. logged (sample_log n)) (rev [0..<51]))"
    by (simp add: distinct_map logged_sample_inj [THEN inj_on_subset] del: upt_rec_numeral)
  then have "distinct (logged (sample_log 50) # map (\<lambda>n. logged (sample_log n)) (rev [0..<50]))"
    by (simp only: up rev_append rev.simps append.simps list.map)
  then have d: "distinct (logged (stamp0, replicate 50 CHR ''.'', INFO) # systemLogs full_log_state)"
    by (simp only: systemLogs_full new)
  have e: "length (systemLogs initial_state) \<le> 50"
    by (simp add: initial_state_def)
  note th = addLog_ring_buffer [of stamp0 "replicate 50 CHR ''.''" INFO full_log_state]
  from th [of "[]" loading_system] n d l new reachable_loading
  have a: "length (systemLogs (addLog stamp0 (replicate 50 CHR ''.'') INFO full_log_state)) = 50
   \<and> hd (systemLogs (addLog stamp0 (replicate 50 CHR ''.'') INFO full_log_state)) =
        logged (sample_log 50)
   \<and> tl (systemLogs (addLog stamp0 (replicate 50 CHR ''.'') INFO full_log_state)) =
        butlast (systemLogs full_log_state)
   \<and> logged (sample_log 0) \<notin>
        set (systemLogs (addLog stamp0 (replicate 50 CHR ''.'') INFO full_log_state))
   \<and> length (systemLogs (app loading_system)) \<le> 50"
    by metis
  have split: "map sample_log [0..<51] = map sample_log [0..<50] @ [sample_log 50]"
    by (simp only: up map_append list.map)
  have "addLogs (xs @ [c]) s = (case c of (st, msg, lvl) \<Rightarrow> addLog st msg lvl (addLogs xs s))"
    for xs c s
    by (induction xs arbitrary: s) (auto split: prod.splits)
  then have b: "systemLogs (addLogs (map sample_log [0..<51]) initial_state) =
        systemLogs (addLog stamp0 (replicate 50 CHR ''.'') INFO full_log_state)"
    by (simp only: split full_log_state_def) (simp add: sample_log_def)
  from n l a b show ?thesis
    by blast
qed

section \<open>The quant prediction scenario\<close>

text \<open>
  C6. A submit of a non-empty query on an idle quant task issues the call of
  \<open>generateQuantPrediction\<close> with the query as it stands; the request of that call has
  the query as its contents and a thinking budget of 32768. When the call settles with
  the value \<open>res\<close>, \<open>quantResult\<close> is \<open>res\<close> and the loading flag is clear; for a
  response with a non-empty text, \<open>res\<close> is that text.
\<close>

theorem quant_submit_scenario:
  "(quantQuery (app \<sigma>) \<noteq> [] \<and> \<not> quantLoading (app \<sigma>) \<longrightarrow>
      inflight (fire (SubmitQuant st) \<sigma>) = inflight \<sigma> @ [CallQuantPrediction (quantQuery (app \<sigma>))]
      \<and> quantLoading (app (fire (SubmitQuant st) \<sigma>)))
   \<and> contents (call_request (CallQuantPrediction q)) = Prompt q
   \<and> thinkingBudget (call_request (CallQuantPrediction q)) = Some 32768
   \<and> (i < length (inflight \<sigma>') \<and> inflight \<sigma>' ! i = CallQuantPrediction q
        \<and> generateQuantPrediction client q = Inr res \<longrightarrow>
        quantResult (app (fire (Settle i client st') \<sigma>')) = res
        \<and> \<not> quantLoading (app (fire (Settle i client st') \<sigma>')))
   \<and> (ai (call_request (CallQuantPrediction q)) = Inr response
        \<and> response_text response = Some answer \<and> answer \<noteq> [] \<longrightarrow>
        generateQuantPrediction (Inr ai) q = Inr answer)"
  by (auto simp add: handler_defs generateQuantPrediction_request_def handleQuantSubmit_resume_def
      generateQuantPrediction_def)

theorem quant_submit_scenario_witness:
  "inflight (fire (SubmitQuant stamp0) ready_system) =
     [CallMarketUpdates, CallQuantPrediction ''rate cut impact on small caps'']
   \<and> thinkingBudget (call_request (CallQuantPrediction ''rate cut impact on small caps'')) = Some 32768
   \<and> contents (call_request (CallQuantPrediction ''rate cut impact on small caps'')) =
       Prompt ''rate cut impact on small caps''
   \<and> quantResult
        (app (fire (Settle 1 (Inr (answering (Inr quant_response))) stamp0) loading_system)) =
       ''Small caps outperform.''
   \<and> \<not> quantLoading
        (app (fire (Settle 1 (Inr (answering (Inr quant_response))) stamp0) loading_system))"
proof -
  have t: "answering (Inr quant_response)
        (call_request (CallQuantPrediction ''rate cut impact on small caps'')) = Inr quant_response
      \<and> response_text quant_response = Some ''Small caps outperform.''
      \<and> ''Small caps outperform.'' \<noteq> []"
    by (simp add: quant_response_def answering_def)
  have i: "1 < length (inflight loading_system)
      \<and> inflight loading_system ! 1 = CallQuantPrediction ''rate cut impact on small caps''"
    by (simp add: inflight_loading)
  have q: "quantQuery (app ready_system) \<noteq> [] \<and> \<not> quantLoading (app ready_system)"
    by (simp add: quantQuery_ready quantLoading_ready)
  note th = quant_submit_scenario [of ready_system stamp0 "''rate cut impact on small caps''" 1
      loading_system "Inr (answering (Inr quant_response))" "''Small caps outperform.''" stamp0
      "answering (Inr quant_response)" quant_response "''Small caps outperform.''"]
  from th t have g: "generateQuantPrediction (Inr (answering (Inr quant_response)))
      ''rate cut impact on small caps'' = Inr ''Small caps outperform.''"
    by blast
  from th q i g show ?thesis
    by (simp add: inflight_ready quantQuery_ready)
qed

section \<open>Independence of the request states\<close>

lemma handlers_frame:
  "(t \<noteq> QuantPrediction \<longrightarrow>
      requestState t (fst (handleQuantSubmit st s)) = requestState t s
      \<and> requestState t (handleQuantSubmit_resume st answer s) = requestState t s)
   \<and> (t \<noteq> DealSourcing \<longrightarrow>
      requestState t (fst (handleDealSubmit st s)) = requestState t s
      \<and> requestState t (handleDealSubmit_resume st res s) = requestState t s)
   \<and> (t \<noteq> ResourceMapping \<longrightarrow>
      requestState t (fst (handleResourceSubmit st s)) = requestState t s
      \<and> requestState t (handleResourceSubmit_resume st res s) = requestState t s)
   \<and> (t \<noteq> ImageAnalysis \<longrightarrow>
      requestState t (fst (handleAnalysisSubmit st s)) = requestState t s
      \<and> requestState t (handleAnalysisSubmit_resume st answer s) = requestState t s)"
  by (cases t) (auto simp add: handler_defs resume_defs split: option.splits)

lemma handlers_input:
  "fst (requestState t (fst (handleQuantSubmit st s))) = fst (requestState t s)
   \<and> fst (requestState t (handleQuantSubmit_resume st answer s)) = fst (requestState t s)
   \<and> fst (requestState t (fst (handleDealSubmit st s))) = fst (requestState t s)
   \<and> fst (requestState t (handleDealSubmit_resume st res s)) = fst (requestState t s)
   \<and> fst (requestState t (fst (handleResourceSubmit st s))) = fst (requestState t s)
   \<and> fst (requestState t (handleResourceSubmit_resume st res s)) = fst (requestState t s)
   \<and> fst (requestState t (fst (handleAnalysisSubmit st s))) = fst (requestState t s)
   \<and> fst (requestState t (handleAnalysisSubmit_resume st answer s)) = fst (requestState t s)"
  by (cases t) (auto simp add: handler_defs resume_defs split: option.splits)

text \<open>
  C8, as stated, fails: the input of a task is written by its input control, which is
  not its submit handler. Typing into the query field changes the input of the quant
  task.
\<close>

theorem input_written_by_its_control:
  "handler_event (SetQuantQuery ''gold'') ready_system = None
   \<and> fst (requestState QuantPrediction (app ready_system)) =
       TextInput ''rate cut impact on small caps''
   \<and> fst (requestState QuantPrediction (app (fire (SetQuantQuery ''gold'') ready_system))) =
       TextInput ''gold''"
  by (simp add: quantQuery_ready)

text \<open>
  C8, amended. The result and the loading flag of a task are changed only by the two
  halves of that task's own handler (the submit, and the settlement of its call), and
  its input only by that task's own input controls; no handler writes an input. An
  event that does not belong to a task leaves the input, the result and the loading
  flag of that task as they were; in particular both halves of the submit handler of
  one task leave the request state of every other task unchanged.
\<close>

theorem request_states_independent:
  "(event_task e \<sigma> \<noteq> Some t \<longrightarrow> requestState t (app (fire e \<sigma>)) = requestState t (app \<sigma>))
   \<and> (t \<noteq> QuantPrediction \<longrightarrow>
      requestState t (fst (handleQuantSubmit st s)) = requestState t s
      \<and> requestState t (handleQuantSubmit_resume st answer s) = requestState t s)
   \<and> (t \<noteq> DealSourcing \<longrightarrow>
      requestState t (fst (handleDealSubmit st s)) = requestState t s
      \<and> requestState t (handleDealSubmit_resume st res s) = requestState t s)
   \<and> (t \<noteq> ResourceMapping \<longrightarrow>
      requestState t (fst (handleResourceSubmit st s)) = requestState t s
      \<and> requestState t (handleResourceSubmit_resume st res s) = requestState t s)
   \<and> (t \<noteq> ImageAnalysis \<longrightarrow>
      requestState t (fst (handleAnalysisSubmit st s)) = requestState t s
      \<and> requestState t (handleAnalysisSubmit_resume st answer s) = requestState t s)
   \<and> (snd (requestState t (app (fire e \<sigma>))) \<noteq> snd (requestState t (app \<sigma>)) \<longrightarrow>
        handler_event e \<sigma> = Some t)
   \<and> (fst (requestState t (app (fire e \<sigma>))) \<noteq> fst (requestState t (app \<sigma>)) \<longrightarrow>
        input_event e = Some t)
   \<and> fst (requestState t (fst (handleQuantSubmit st s))) = fst (requestState t s)
   \<and> fst (requestState t (handleQuantSubmit_resume st answer s)) = fst (requestState t s)
   \<and> fst (requestState t (fst (handleDealSubmit st s))) = fst (requestState t s)
   \<and> fst (requestState t (handleDealSubmit_resume st res s)) = fst (requestState t s)
   \<and> fst (requestState t (fst (handleResourceSubmit st s))) = fst (requestState t s)
   \<and> fst (requestState t (handleResourceSubmit_resume st res s)) = fst (requestState t s)
   \<and> fst (requestState t (fst (handleAnalysisSubmit st s))) = fst (requestState t s)
   \<and> fst (requestState t (handleAnalysisSubmit_resume st answer s)) = fst (requestState t s)"
  using fire_frame [of e \<sigma> t] handlers_frame [of t st s answer res]
    fire_result [of e \<sigma> t] fire_input [of e t \<sigma>] handlers_input [of t st s answer res]
  by blast

theorem request_states_independent_witness:
  "requestState DealSourcing (app (fire (SubmitQuant stamp0) ready_system)) =
     requestState DealSourcing (app ready_system)
   \<and> requestState DealSourcing
        (app (fire (Settle 1 (Inr (answering (Inr quant_response))) stamp0) loading_system)) =
       requestState DealSourcing (app loading_system)
   \<and> requestState DealSourcing (fst (handleQuantSubmit stamp0 jpeg_state)) =
       requestState DealSourcing jpeg_state
   \<and> requestState DealSourcing (handleAnalysisSubmit_resume stamp0 ''Double top.'' jpeg_state) =
       requestState DealSourcing jpeg_state
   \<and> handler_event (SubmitQuant stamp0) ready_system = Some QuantPrediction
   \<and> input_event (SetQuantQuery ''gold'') = Some QuantPrediction"
proof -
  have a: "event_task (SubmitQuant stamp0) ready_system \<noteq> Some DealSourcing"
    by simp
  have b: "event_task (Settle 1 (Inr (answering (Inr quant_response))) stamp0) loading_system \<noteq>
      Some DealSourcing"
    by (simp add: inflight_loading)
  have c: "DealSourcing \<noteq> QuantPrediction \<and> DealSourcing \<noteq> ImageAnalysis"
    by simp
  have flag: "snd (requestState QuantPrediction (app (fire (SubmitQuant stamp0) ready_system))) \<noteq>
      snd (requestState QuantPrediction (app ready_system))"
    by (simp add: handler_defs quantQuery_ready quantLoading_ready)
  have typed: "fst (requestState QuantPrediction (app (fire (SetQuantQuery ''gold'') ready_system))) \<noteq>
      fst (requestState QuantPrediction (app ready_system))"
    by (simp add: quantQuery_ready)
  from a b c flag typed
    request_states_independent [of "SubmitQuant stamp0" ready_system DealSourcing stamp0 jpeg_state
      "''Double top.''"]
    request_states_independent [of "Settle 1 (Inr (answering (Inr quant_response))) stamp0"
      loading_system DealSourcing]
    request_states_independent [of "SubmitQuant stamp0" ready_system QuantPrediction]
    request_states_independent [of "SetQuantQuery ''gold''" ready_system QuantPrediction]
  show ?thesis
    by blast
qed

section \<open>Resource requests of the controller\<close>

lemma unlocated_toolConfig: "unlocated c \<Longrightarrow> toolConfig (call_request c) = None"
  by (cases c)
     (simp_all add: getMarketUpdates_request_def generateQuantPrediction_request_def
        findPrivateEquityDeals_request_def findResources_request_def analyzeChartImage_request_def)

text \<open>
  C9. The call the resource handler makes is \<open>findResources\<close> with the resource type
  alone; in every reachable state each pending call is without coordinates, and its
  request has no location constraint.
\<close>

theorem resource_requests_unlocated:
  "(snd (handleResourceSubmit st s) = Some c \<longrightarrow>
      c = CallResources (resourceType s) None None \<and> toolConfig (call_request c) = None)
   \<and> (reachable \<sigma> \<and> c' \<in> set (inflight \<sigma>) \<longrightarrow>
        unlocated c' \<and> toolConfig (call_request c') = None)"
proof -
  have "unlocated c'" if "reachable \<sigma>" and "c' \<in> set (inflight \<sigma>)"
    using reachable_unlocated [OF that(1)] that(2) by (simp add: list_all_iff)
  then show ?thesis
    using unlocated_toolConfig [of c']
    by (auto simp add: handleResourceSubmit_def findResources_request_def split: if_splits)
qed

lemma reachable_lithium: "reachable lithium_system"
  unfolding lithium_system_def by (intro reachable.intros)

theorem resource_requests_unlocated_witness:
  "snd (handleResourceSubmit stamp0 (initial_state\<lparr> resourceType := ''lithium'' \<rparr>)) =
     Some (CallResources ''lithium'' None None)
   \<and> inflight lithium_system = [CallMarketUpdates, CallResources ''lithium'' None None]
   \<and> toolConfig (call_request (CallResources ''lithium'' None None)) = None"
proof -
  have c: "snd (handleResourceSubmit stamp0 (initial_state\<lparr> resourceType := ''lithium'' \<rparr>)) =
     Some (CallResources ''lithium'' None None)"
    by (simp add: handleResourceSubmit_def)
  have i: "inflight lithium_system = [CallMarketUpdates, CallResources ''lithium'' None None]"
    by (simp add: lithium_system_def mounted_def initial_state_def handler_defs)
  then have m: "CallResources ''lithium'' None None \<in> set (inflight lithium_system)"
    by simp
  from resource_requests_unlocated [of stamp0 "initial_state\<lparr> resourceType := ''lithium'' \<rparr>"
      "CallResources ''lithium'' None None" lithium_system "CallResources ''lithium'' None None"]
    c i m reachable_lithium
  show ?thesis
    by blast
qed

end
